theory Spec2Isabelle
  imports Complex_Main "HOL-Library.AList" "HOL-Library.Multiset"
begin

section \<open>Shared vocabulary: durations, errors, float64\<close>

text \<open>
  Go's \<^verbatim>\<open>time.Duration\<close> is an int64 count of nanoseconds; an instant
  (\<^verbatim>\<open>time.Time\<close>) is read here as an integer count of nanoseconds on the
  monotonic clock. The int64 counters of the program are integers on which \<^verbatim>\<open>++\<close>
  wraps around at 64 bits.
\<close>

type_synonym duration = int
type_synonym instant = int

definition Millisecond :: duration where
  "Millisecond = 1000000"

definition Second :: duration where
  "Second = 1000000000"

definition Hour :: duration where
  "Hour = 3600000000000"

definition minDuration :: duration where
  "minDuration = - (2 ^ 63)"

definition maxDuration :: duration where
  "maxDuration = 2 ^ 63 - 1"

definition wrap64 :: "int \<Rightarrow> int" where
  "wrap64 x = (x + 2 ^ 63) mod 2 ^ 64 - 2 ^ 63"

text \<open>
  \<^verbatim>\<open>Time.Sub\<close> saturates: the difference of two instants is cut to the range of a
  Duration.
\<close>

definition time_Sub :: "instant \<Rightarrow> instant \<Rightarrow> duration" where
  "time_Sub t u = (let d = t - u in
     if d > maxDuration then maxDuration else if d < minDuration then minDuration else d)"

text \<open>
  Errors are values. \<open>DeadlineExceeded\<close> and \<open>Canceled\<close> are the two sentinel
  errors of the context package, \<open>ErrorString s\<close> is \<^verbatim>\<open>errors.New(s)\<close>, and
  \<open>Errorf p e\<close> is \<^verbatim>\<open>fmt.Errorf(p + "%w", e)\<close>: the error \<open>e\<close> wrapped behind the
  text \<open>p\<close>, whose own text is \<open>p\<close> followed by the text of \<open>e\<close>. Any other error
  type may wrap an error too and print what it likes: \<open>Wrapping s e\<close> is an error whose
  \<^verbatim>\<open>Error()\<close> returns \<open>s\<close> and whose \<^verbatim>\<open>Unwrap()\<close> returns \<open>e\<close>. \<open>Error\<close> is the
  \<^verbatim>\<open>Error()\<close> method, and \<open>errors_Is\<close> is \<^verbatim>\<open>errors.Is\<close>, which follows
  \<^verbatim>\<open>Unwrap()\<close> whatever the texts are.
\<close>

datatype error =
  DeadlineExceeded | Canceled | ErrorString string | Errorf string error | Wrapping string error

fun Error :: "error \<Rightarrow> string" where
  "Error DeadlineExceeded = ''context deadline exceeded''"
| "Error Canceled = ''context canceled''"
| "Error (ErrorString s) = s"
| "Error (Errorf p e) = p @ Error e"
| "Error (Wrapping s e) = s"

fun errors_Is :: "error \<Rightarrow> error \<Rightarrow> bool" where
  "errors_Is (Errorf p e) target = (Errorf p e = target \<or> errors_Is e target)"
| "errors_Is (Wrapping s e) target = (Wrapping s e = target \<or> errors_Is e target)"
| "errors_Is e target = (e = target)"

text \<open>
  \<^verbatim>\<open>strings.HasPrefix\<close> and \<^verbatim>\<open>strings.Contains\<close> on byte strings.
\<close>

fun strings_HasPrefix :: "string \<Rightarrow> string \<Rightarrow> bool" where
  "strings_HasPrefix s [] = True"
| "strings_HasPrefix [] (c # cs) = False"
| "strings_HasPrefix (x # xs) (c # cs) = (x = c \<and> strings_HasPrefix xs cs)"

fun strings_Contains :: "string \<Rightarrow> string \<Rightarrow> bool" where
  "strings_Contains [] sub = (sub = [])"
| "strings_Contains (x # xs) sub = (strings_HasPrefix (x # xs) sub \<or> strings_Contains xs sub)"

text \<open>
  float64 arithmetic. A float64 operation returns the exact real result, rounded; the
  rounding function \<open>fl\<close> is a parameter of the model, of which the theorems assume only
  that it is monotone and leaves every finite binary64 number unchanged (every IEEE 754
  rounding mode does both, wherever the result is finite). A conversion of a float64 to
  int64 truncates towards zero; when the truncated value does not fit in 64 bits, Go
  leaves the result to the platform, which is the second parameter \<open>ovf\<close>.
\<close>

record float64_sem =
  fl :: "real \<Rightarrow> real"
  ovf :: "real \<Rightarrow> int"

definition binary64 :: "real set" where
  "binary64 = {x. \<exists>m e. x = of_int m * 2 powi e \<and> \<bar>m\<bar> < 2 ^ 53 \<and> - 1074 \<le> e \<and> e \<le> 971}"

definition is_rounding :: "(real \<Rightarrow> real) \<Rightarrow> bool" where
  "is_rounding r = ((\<forall>x y. x \<le> y \<longrightarrow> r x \<le> r y) \<and> (\<forall>x \<in> binary64. r x = x))"

definition float64 :: "float64_sem \<Rightarrow> int \<Rightarrow> real" where
  "float64 F n = fl F (of_int n)"

definition real_trunc :: "real \<Rightarrow> int" where
  "real_trunc x = (if 0 \<le> x then \<lfloor>x\<rfloor> else \<lceil>x\<rceil>)"

definition Duration_of_float :: "float64_sem \<Rightarrow> real \<Rightarrow> duration" where
  "Duration_of_float F x =
     (if minDuration \<le> real_trunc x \<and> real_trunc x \<le> maxDuration then real_trunc x else ovf F x)"

section \<open>MetricCache (internal/service/metric/cache.go)\<close>

text \<open>
  \<open>model.TimeRange\<close> and \<open>model.Range\<close> are declared outside the files at hand;
  the code uses the fields \<open>Start\<close>, \<open>End\<close> and \<open>Range\<close> of a time range, so the
  type of \<open>Range\<close> is left as a type parameter.
\<close>

record 'r TimeRange =
  Start :: instant
  End :: instant
  Range :: 'r

record 'r MetricCacheKey =
  DatasourceID :: string
  Query :: string
  key_Range :: 'r

text \<open>
  \<open>NewCacheKey\<close> feeds the datasource ID, the query and the start and end of the time
  range into a SHA-256 hash \<open>h\<close>, never reads \<open>h\<close> again, and returns the three fields.
\<close>

definition NewCacheKey :: "string \<Rightarrow> string \<Rightarrow> 'r TimeRange \<Rightarrow> 'r MetricCacheKey" where
  "NewCacheKey datasourceID query tr =
     \<lparr>DatasourceID = datasourceID, Query = query, key_Range = Range tr\<rparr>"

record 's cacheEntry =
  data :: "'s list"
  created :: instant
  expires :: instant
  entry_hits :: int

text \<open>
  The Go map \<open>entries\<close> is an association list, read with \<open>map_of\<close> and written with
  \<open>AList.update\<close> and \<open>AList.delete\<close>, which keep one pair per key.
\<close>

record 's MetricCache =
  entries :: "(string \<times> 's cacheEntry) list"
  maxSize :: int
  maxAge :: duration
  hits :: int
  misses :: int

definition NewMetricCache :: "int \<Rightarrow> duration \<Rightarrow> 's MetricCache" where
  "NewMetricCache maxSize' maxAge' =
     \<lparr>entries = [], maxSize = maxSize', maxAge = maxAge', hits = 0, misses = 0\<rparr>"

text \<open>
  The string under which \<open>Get\<close> and \<open>Set\<close> index \<open>entries\<close>:
  \<^verbatim>\<open>fmt.Sprintf("%x", sha256.Sum256([]byte(fmt.Sprintf("%s:%s", key.DatasourceID, key.Query))))\<close>.
  The parameter \<open>sha256hex\<close> stands for the standard library's SHA-256 followed by
  the hexadecimal printing.
\<close>

definition cacheKey :: "(string \<Rightarrow> string) \<Rightarrow> 'r MetricCacheKey \<Rightarrow> string" where
  "cacheKey sha256hex key = sha256hex (DatasourceID key @ '':'' @ Query key)"

text \<open>
  \<open>Get\<close>, at the clock reading \<open>now\<close>. It returns the pair of the Go function and
  the cache after the call; the nil slice is the empty list.
\<close>

definition Get ::
  "(string \<Rightarrow> string) \<Rightarrow> 's MetricCache \<Rightarrow> 'r MetricCacheKey \<Rightarrow> instant
     \<Rightarrow> ('s list \<times> bool) \<times> 's MetricCache" where
  "Get sha256hex mc key now =
     (let k = cacheKey sha256hex key in
      case map_of (entries mc) k of
        Some entry \<Rightarrow>
          if now < expires entry
          then ((data entry, True),
                mc\<lparr>entries := AList.update k (entry\<lparr>entry_hits := wrap64 (entry_hits entry + 1)\<rparr>) (entries mc),
                   hits := wrap64 (hits mc + 1)\<rparr>)
          else (([], False),
                mc\<lparr>entries := AList.delete k (entries mc), misses := wrap64 (misses mc + 1)\<rparr>)
      | None \<Rightarrow> (([], False), mc\<lparr>misses := wrap64 (misses mc + 1)\<rparr>))"

definition evictOldEntries :: "'s MetricCache \<Rightarrow> instant \<Rightarrow> 's MetricCache" where
  "evictOldEntries mc now = mc\<lparr>entries := filter (\<lambda>(k, entry). \<not> now > expires entry) (entries mc)\<rparr>"

text \<open>
  \<open>Set\<close> reads the clock up to three times: in the sweep (\<open>now_evict\<close>), for
  \<open>created\<close> and for \<open>expires\<close>.
\<close>

definition Set ::
  "(string \<Rightarrow> string) \<Rightarrow> 's MetricCache \<Rightarrow> 'r MetricCacheKey \<Rightarrow> 's list
     \<Rightarrow> instant \<Rightarrow> instant \<Rightarrow> instant \<Rightarrow> 's MetricCache" where
  "Set sha256hex mc key d now_evict now_created now_expires =
     (let mc1 = (if wrap64 (int (length (entries mc)) * 2) > maxSize mc
                 then evictOldEntries mc now_evict else mc);
          k = cacheKey sha256hex key
      in mc1\<lparr>entries := AList.update k
                \<lparr>data = d, created = now_created, expires = now_expires + maxAge mc1, entry_hits = 0\<rparr>
                (entries mc1)\<rparr>)"

record CacheStats =
  Hits :: int
  Misses :: int
  HitRate :: "real option"
  Size :: int

text \<open>
  \<open>Stats\<close>. A float64 division whose divisor is zero has no finite result (Go yields
  an infinity or a NaN): \<open>float_div\<close> returns \<open>None\<close> there, and \<open>HitRate\<close> is
  \<open>None\<close> when it is not a finite number.
\<close>

definition float_div :: "float64_sem \<Rightarrow> real \<Rightarrow> real \<Rightarrow> real option" where
  "float_div F x y = (if y = 0 then None else Some (fl F (x / y)))"

definition Stats :: "float64_sem \<Rightarrow> 's MetricCache \<Rightarrow> CacheStats" where
  "Stats F mc =
     (let total = wrap64 (hits mc + misses mc);
          hitRate = (if total > 0
                     then (case float_div F (float64 F (hits mc)) (float64 F total) of
                             None \<Rightarrow> None
                           | Some q \<Rightarrow> Some (fl F (q * 100)))
                     else Some 0)
      in \<lparr>Hits = hits mc, Misses = misses mc, HitRate = hitRate,
          Size = int (length (entries mc))\<rparr>)"

definition Clear :: "'s MetricCache \<Rightarrow> 's MetricCache" where
  "Clear mc = mc\<lparr>entries := [], hits := 0, misses := 0\<rparr>"

section \<open>The enhanced Prometheus gatherer (internal/service/metric/prometheus)\<close>

definition DefaultTimeout :: duration where
  "DefaultTimeout = 5 * Second"

definition MinTimeout :: duration where
  "MinTimeout = 1 * Second"

definition MaxTimeout :: duration where
  "MaxTimeout = 30 * Second"

record gathererMetrics =
  queriesTotal :: int
  queriesSuccessful :: int
  queriesFailed :: int
  queriesTimeout :: int
  averageExecTime :: duration

text \<open>
  The wrapped gatherer \<open>base\<close> talks to the backend; what it returns is part of the
  environment of a call (below). \<open>metrics\<close> is a pointer, \<open>None\<close> when nil.
\<close>

record enhancedGatherer =
  eg_id :: string
  timeout :: duration
  lastExecTime :: duration
  metrics :: "gathererMetrics option"

definition NewEnhancedGatherer :: "string \<Rightarrow> enhancedGatherer" where
  "NewEnhancedGatherer datasourceID =
     \<lparr>eg_id = datasourceID, timeout = DefaultTimeout, lastExecTime = 0,
      metrics = Some \<lparr>queriesTotal = 0, queriesSuccessful = 0, queriesFailed = 0,
                      queriesTimeout = 0, averageExecTime = 0\<rparr>\<rparr>"

definition SetTimeout :: "enhancedGatherer \<Rightarrow> duration \<Rightarrow> enhancedGatherer" where
  "SetTimeout eg duration =
     (let d1 = (if duration \<le> 0 then DefaultTimeout else duration);
          d2 = (if d1 > 30 * Second then 30 * Second else d1);
          d3 = (if d2 < Second then Second else d2)
      in eg\<lparr>timeout := d3\<rparr>)"

definition timeoutDuration :: "enhancedGatherer \<Rightarrow> duration" where
  "timeoutDuration eg = timeout eg"

definition markSuccess :: "enhancedGatherer \<Rightarrow> enhancedGatherer" where
  "markSuccess eg =
     (case metrics eg of
        None \<Rightarrow> eg
      | Some m \<Rightarrow> eg\<lparr>metrics := Some (m\<lparr>queriesTotal := wrap64 (queriesTotal m + 1),
                                          queriesSuccessful := wrap64 (queriesSuccessful m + 1)\<rparr>)\<rparr>)"

definition markFailure :: "enhancedGatherer \<Rightarrow> enhancedGatherer" where
  "markFailure eg =
     (case metrics eg of
        None \<Rightarrow> eg
      | Some m \<Rightarrow> eg\<lparr>metrics := Some (m\<lparr>queriesTotal := wrap64 (queriesTotal m + 1),
                                          queriesFailed := wrap64 (queriesFailed m + 1)\<rparr>)\<rparr>)"

definition markTimeout :: "enhancedGatherer \<Rightarrow> enhancedGatherer" where
  "markTimeout eg =
     (case metrics eg of
        None \<Rightarrow> eg
      | Some m \<Rightarrow> eg\<lparr>metrics := Some (m\<lparr>queriesTotal := wrap64 (queriesTotal m + 1),
                                          queriesTimeout := wrap64 (queriesTimeout m + 1)\<rparr>)\<rparr>)"

text \<open>
  \<open>isContextError\<close> of the prometheus package: a test on the text of the error.
\<close>

definition isContextError :: "error option \<Rightarrow> bool" where
  "isContextError err =
     (case err of
        None \<Rightarrow> False
      | Some e \<Rightarrow> strings_Contains (Error e) ''deadline exceeded'' \<or>
                  strings_Contains (Error e) ''canceled'' \<or>
                  strings_Contains (Error e) ''timeout'')"

text \<open>
  The spec's notion of a context error, for comparison: an error that is, or wraps, one
  of the two sentinel errors by which a context reports its deadline or cancellation.
\<close>

definition spec_context_error :: "error \<Rightarrow> bool" where
  "spec_context_error e = (errors_Is e DeadlineExceeded \<or> errors_Is e Canceled)"

text \<open>
  The environment of one call of a retry loop: what the context and the backend do, by
  iteration \<open>retry\<close> of the loop.
  \<^item> \<open>ctxErr env retry\<close> is \<^verbatim>\<open>ctx.Err()\<close> as read at the top of the iteration;
  \<^item> \<open>queryFunc env retry\<close> is the pair returned by the wrapped query of the iteration;
  \<^item> \<open>ctxDone env retry\<close> decides the \<^verbatim>\<open>select\<close> of the backoff of the iteration:
    \<open>None\<close> when the timer fires first, \<open>Some e\<close> when \<^verbatim>\<open>ctx.Done()\<close> does, with
    \<open>e\<close> the \<^verbatim>\<open>ctx.Err()\<close> read next.
  A run carries the gatherer and what an observer of the call sees: the timeout of the
  child context, the number of queries made and the backoff delays slept in full.
\<close>

record 's retry_env =
  ctxErr :: "nat \<Rightarrow> error option"
  queryFunc :: "nat \<Rightarrow> 's list \<times> error option"
  ctxDone :: "nat \<Rightarrow> error option"

record run =
  gatherer :: enhancedGatherer
  ctx_timeout :: duration
  attempts :: nat
  sleeps :: "duration list"

text \<open>
  The loops of \<open>executeWithRetry\<close> and \<open>executeWithRetryForRange\<close> are the same
  text but for the factor of the backoff (100 and 250), the text of the deadline error
  and the query they call, so one function \<open>retry_loop\<close> holds the loop, with the
  factor and the text as its first two arguments. \<open>maxRetries\<close> is the local variable
  of that name, \<open>retry\<close> the loop counter and \<open>lastErr\<close> the variable of that name.
\<close>

function retry_loop ::
  "int \<Rightarrow> string \<Rightarrow> 's retry_env \<Rightarrow> nat \<Rightarrow> nat \<Rightarrow> error option \<Rightarrow> run
     \<Rightarrow> ('s list \<times> error option) \<times> run" where
  "retry_loop factor deadline_text env maxRetries retry lastErr r =
     (if retry < maxRetries then
        (case ctxErr env retry of
           Some ce \<Rightarrow>
             (([], Some (Errorf deadline_text ce)),
              r\<lparr>gatherer := (if metrics (gatherer r) \<noteq> None then markTimeout (gatherer r)
                              else gatherer r)\<rparr>)
         | None \<Rightarrow>
             (let res = queryFunc env retry;
                  r1 = r\<lparr>attempts := Suc (attempts r)\<rparr>
              in if snd res = None then
                   ((fst res, None),
                    r1\<lparr>gatherer := (if metrics (gatherer r1) \<noteq> None then markSuccess (gatherer r1)
                                     else gatherer r1)\<rparr>)
                 else if isContextError (snd res) then
                   (([], snd res),
                    r1\<lparr>gatherer := (if metrics (gatherer r1) \<noteq> None then markTimeout (gatherer r1)
                                     else gatherer r1)\<rparr>)
                 else if int retry < int maxRetries - 1 then
                   (let backoff = (int retry + 1) * Millisecond * factor
                    in case ctxDone env retry of
                         Some ce \<Rightarrow> (([], Some ce), r1)
                       | None \<Rightarrow>
                           retry_loop factor deadline_text env maxRetries (Suc retry) (snd res)
                             (r1\<lparr>sleeps := sleeps r1 @ [backoff]\<rparr>))
                 else retry_loop factor deadline_text env maxRetries (Suc retry) (snd res) r1))
      else (([], lastErr),
            r\<lparr>gatherer := (if metrics (gatherer r) \<noteq> None then markFailure (gatherer r)
                            else gatherer r)\<rparr>))"
  by pat_completeness auto
termination
  by (relation "measure (\<lambda>(factor, deadline_text, env, maxRetries, retry, lastErr, r). maxRetries - retry)")
    auto

declare retry_loop.simps [simp del]

definition executeWithRetry :: "'s retry_env \<Rightarrow> run \<Rightarrow> ('s list \<times> error option) \<times> run" where
  "executeWithRetry env r = retry_loop 100 ''query deadline exceeded: '' env 2 0 None r"

definition executeWithRetryForRange :: "'s retry_env \<Rightarrow> run \<Rightarrow> ('s list \<times> error option) \<times> run" where
  "executeWithRetryForRange env r = retry_loop 250 ''range query deadline exceeded: '' env 2 0 None r"

definition calculateRangeTimeout ::
  "float64_sem \<Rightarrow> enhancedGatherer \<Rightarrow> instant \<Rightarrow> instant \<Rightarrow> duration" where
  "calculateRangeTimeout F eg start end' =
     (let rangeSize = time_Sub end' start;
          baseTimeout = timeoutDuration eg;
          scaleFactor = fl F (float64 F rangeSize / of_int (1 * Hour))
      in if scaleFactor > 1 then
           (let timeout' = Duration_of_float F (fl F (float64 F baseTimeout * scaleFactor))
            in if timeout' > 30 * Second then 30 * Second else timeout')
         else baseTimeout)"

definition recordExecutionTime :: "float64_sem \<Rightarrow> enhancedGatherer \<Rightarrow> duration \<Rightarrow> enhancedGatherer" where
  "recordExecutionTime F eg duration =
     (case metrics eg of
        None \<Rightarrow> eg
      | Some m \<Rightarrow>
          if queriesSuccessful m > 0 then
            (let oldAvg = float64 F (averageExecTime m);
                 newDuration = float64 F duration
             in eg\<lparr>metrics := Some (m\<lparr>averageExecTime :=
                      Duration_of_float F (fl F (fl F (oldAvg + newDuration) / 2))\<rparr>)\<rparr>)
          else eg\<lparr>metrics := Some (m\<lparr>averageExecTime := duration\<rparr>)\<rparr>)"

text \<open>
  \<open>GatherSingle\<close> and \<open>GatherRange\<close>. \<open>elapsed\<close> is \<^verbatim>\<open>time.Since(start)\<close> as the
  deferred call reads it when the method returns.
\<close>

definition GatherSingle ::
  "float64_sem \<Rightarrow> 's retry_env \<Rightarrow> duration \<Rightarrow> enhancedGatherer \<Rightarrow> ('s list \<times> error option) \<times> run" where
  "GatherSingle F env elapsed eg =
     (let r0 = \<lparr>gatherer = eg, ctx_timeout = timeoutDuration eg, attempts = 0, sleeps = []\<rparr>;
          out = executeWithRetry env r0
      in (fst out, (snd out)\<lparr>gatherer := recordExecutionTime F (gatherer (snd out)) elapsed\<rparr>))"

definition GatherRange ::
  "float64_sem \<Rightarrow> 's retry_env \<Rightarrow> duration \<Rightarrow> enhancedGatherer \<Rightarrow> instant \<Rightarrow> instant
     \<Rightarrow> ('s list \<times> error option) \<times> run" where
  "GatherRange F env elapsed eg start end' =
     (let adjustedTimeout = calculateRangeTimeout F eg start end';
          r0 = \<lparr>gatherer = eg, ctx_timeout = adjustedTimeout, attempts = 0, sleeps = []\<rparr>;
          out = executeWithRetryForRange env r0
      in (fst out, (snd out)\<lparr>gatherer := recordExecutionTime F (gatherer (snd out)) elapsed\<rparr>))"

record GathererStats =
  TotalQueries :: int
  SuccessfulQueries :: int
  FailedQueries :: int
  TimeoutQueries :: int

text \<open>
  \<open>GetMetrics\<close>, restricted to the four counters.
\<close>

definition GetMetrics :: "enhancedGatherer \<Rightarrow> GathererStats" where
  "GetMetrics eg =
     (case metrics eg of
        None \<Rightarrow> \<lparr>TotalQueries = 0, SuccessfulQueries = 0, FailedQueries = 0, TimeoutQueries = 0\<rparr>
      | Some m \<Rightarrow> \<lparr>TotalQueries = queriesTotal m, SuccessfulQueries = queriesSuccessful m,
                   FailedQueries = queriesFailed m, TimeoutQueries = queriesTimeout m\<rparr>)"

section \<open>The datasource router (internal/service/metric/datasource/datasource.go)\<close>

text \<open>
  A datasource carries its ID and one pointer per backend kind; the four configuration
  types and the type \<open>'m\<close> of a \<^verbatim>\<open>metric.Gatherer\<close> are declared outside the files
  at hand and stay type parameters. The configuration is read after \<open>defaults()\<close>:
  the four creator functions are present, and \<open>Aliases\<close> is a map, given as the list
  of its entries in the order in which the Go loop happens to range over them.
\<close>

record ('p, 'g, 'i, 'f) Datasource =
  ID :: string
  Prometheus :: "'p option"
  Graphite :: "'g option"
  InfluxDB :: "'i option"
  Fake :: "'f option"

record ('p, 'g, 'i, 'f, 'm) ConfigGatherer =
  DashboardDatasources :: "('p, 'g, 'i, 'f) Datasource list"
  UserDatasources :: "('p, 'g, 'i, 'f) Datasource list"
  Aliases :: "(string \<times> string) list"
  CreateFakeFunc :: "'f \<Rightarrow> error + 'm"
  CreatePrometheusFunc :: "'p \<Rightarrow> error + 'm"
  CreateGraphiteFunc :: "'g \<Rightarrow> error + 'm"
  CreateInfluxDBFunc :: "'i \<Rightarrow> error + 'm"

record ('p, 'g, 'i, 'f, 'm) ds_gatherer =
  cfg :: "('p, 'g, 'i, 'f, 'm) ConfigGatherer"
  gatherers :: "(string \<times> 'm) list"

definition createGatherer ::
  "('p, 'g, 'i, 'f, 'm) ConfigGatherer \<Rightarrow> ('p, 'g, 'i, 'f) Datasource \<Rightarrow> string \<Rightarrow> error + 'm" where
  "createGatherer c ds dsID =
     (case Prometheus ds of
        Some p \<Rightarrow> CreatePrometheusFunc c p
      | None \<Rightarrow>
     (case Graphite ds of
        Some g \<Rightarrow> CreateGraphiteFunc c g
      | None \<Rightarrow>
     (case InfluxDB ds of
        Some i \<Rightarrow> CreateInfluxDBFunc c i
      | None \<Rightarrow>
     (case Fake ds of
        Some f \<Rightarrow> CreateFakeFunc c f
      | None \<Rightarrow> Inl (ErrorString ''not a valid datasource'')))))"

text \<open>
  The first two loops of \<open>NewGatherer\<close>: one gatherer per datasource, stored under
  its ID, the first error returned.
\<close>

fun createAll ::
  "('p, 'g, 'i, 'f, 'm) ConfigGatherer \<Rightarrow> ('p, 'g, 'i, 'f) Datasource list \<Rightarrow> (string \<times> 'm) list
     \<Rightarrow> error + (string \<times> 'm) list" where
  "createAll c [] gs = Inr gs"
| "createAll c (ds # dss) gs =
     (case createGatherer c ds (ID ds) of
        Inl err \<Rightarrow> Inl err
      | Inr g \<Rightarrow> createAll c dss (AList.update (ID ds) g gs))"

text \<open>
  The third loop ranges over the IDs of \<open>gs\<close> and replaces the gatherer of an ID that
  \<open>ags\<close> has too; an iteration writes only the key it reads, so the order of the
  range does not show in the result.
\<close>

fun useUserDatasources :: "string list \<Rightarrow> (string \<times> 'm) list \<Rightarrow> (string \<times> 'm) list \<Rightarrow> (string \<times> 'm) list" where
  "useUserDatasources [] ags gs = gs"
| "useUserDatasources (i # ids) ags gs =
     (case map_of ags i of
        Some g \<Rightarrow> useUserDatasources ids ags (AList.update i g gs)
      | None \<Rightarrow> useUserDatasources ids ags gs)"

fun applyAliases ::
  "(string \<times> string) list \<Rightarrow> (string \<times> 'm) list \<Rightarrow> (string \<times> 'm) list \<Rightarrow> error + (string \<times> 'm) list" where
  "applyAliases [] ags gs = Inr gs"
| "applyAliases ((i, alias) # rest) ags gs =
     (case map_of ags alias of
        None \<Rightarrow> Inl (ErrorString (''alias '' @ alias @ '' for ID '' @ i @ '' not found''))
      | Some ag \<Rightarrow> applyAliases rest ags (AList.update i ag gs))"

definition NewGatherer ::
  "('p, 'g, 'i, 'f, 'm) ConfigGatherer \<Rightarrow> error + ('p, 'g, 'i, 'f, 'm) ds_gatherer" where
  "NewGatherer c =
     (case createAll c (DashboardDatasources c) [] of
        Inl err \<Rightarrow> Inl err
      | Inr gs \<Rightarrow>
     (case createAll c (UserDatasources c) [] of
        Inl err \<Rightarrow> Inl err
      | Inr ags \<Rightarrow>
     (case applyAliases (Aliases c) ags (useUserDatasources (map fst gs) ags gs) of
        Inl err \<Rightarrow> Inl err
      | Inr gs' \<Rightarrow> Inr \<lparr>cfg = c, gatherers = gs'\<rparr>)))"

definition metricGatherer :: "('p, 'g, 'i, 'f, 'm) ds_gatherer \<Rightarrow> string \<Rightarrow> error + 'm" where
  "metricGatherer g i =
     (case map_of (gatherers g) i of
        None \<Rightarrow> Inl (ErrorString (''datasource '' @ i @ '' does not exists''))
      | Some mg \<Rightarrow> Inr mg)"

text \<open>
  The router's \<open>GatherSingle\<close> and \<open>GatherRange\<close> have one shape: resolve the
  datasource ID of the query, then hand the call to the gatherer found. \<open>call dsg\<close> is
  that gatherer's method applied to the arguments of the call.
\<close>

definition router_Gather ::
  "('m \<Rightarrow> 's list \<times> error option) \<Rightarrow> ('p, 'g, 'i, 'f, 'm) ds_gatherer \<Rightarrow> string
     \<Rightarrow> 's list \<times> error option" where
  "router_Gather call g datasourceID =
     (case metricGatherer g datasourceID of
        Inl err \<Rightarrow> ([], Some err)
      | Inr dsg \<Rightarrow> call dsg)"

text \<open>
  The gatherer that the second loop leaves under a user datasource ID: the one created
  from the last user datasource of that ID.
\<close>

definition user_gatherer :: "('p, 'g, 'i, 'f, 'm) ConfigGatherer \<Rightarrow> string \<Rightarrow> 'm option" where
  "user_gatherer c i =
     (case find (\<lambda>ds. ID ds = i) (rev (UserDatasources c)) of
        None \<Rightarrow> None
      | Some ds \<Rightarrow> (case createGatherer c ds i of Inl err \<Rightarrow> None | Inr g \<Rightarrow> Some g))"

section \<open>The query executor (package metric, ID-aware variant)\<close>

definition MaxRetransmission :: nat where
  "MaxRetransmission = 3"

record ExecutionMetrics =
  totalQueries :: int
  cacheHits :: int
  errors :: int
  successes :: int

definition NewExecutionMetrics :: ExecutionMetrics where
  "NewExecutionMetrics = \<lparr>totalQueries = 0, cacheHits = 0, errors = 0, successes = 0\<rparr>"

definition RecordCacheHit :: "ExecutionMetrics \<Rightarrow> ExecutionMetrics" where
  "RecordCacheHit em = em\<lparr>totalQueries := wrap64 (totalQueries em + 1), cacheHits := wrap64 (cacheHits em + 1)\<rparr>"

definition RecordError :: "ExecutionMetrics \<Rightarrow> error \<Rightarrow> ExecutionMetrics" where
  "RecordError em err = em\<lparr>totalQueries := wrap64 (totalQueries em + 1), errors := wrap64 (errors em + 1)\<rparr>"

definition RecordSuccess :: "ExecutionMetrics \<Rightarrow> ExecutionMetrics" where
  "RecordSuccess em = em\<lparr>totalQueries := wrap64 (totalQueries em + 1), successes := wrap64 (successes em + 1)\<rparr>"

record 's QueryExecutor =
  cache :: "'s MetricCache"
  qe_metrics :: ExecutionMetrics

definition NewQueryExecutor :: "'s MetricCache \<Rightarrow> 's QueryExecutor" where
  "NewQueryExecutor c = \<lparr>cache = c, qe_metrics = NewExecutionMetrics\<rparr>"

record model_Query =
  Expr :: string
  query_DatasourceID :: string

text \<open>
  \<open>isContextError\<close> of package metric compares the text of the error with the texts
  of the two sentinel errors.
\<close>

definition metric_isContextError :: "error option \<Rightarrow> bool" where
  "metric_isContextError err =
     (case err of
        None \<Rightarrow> False
      | Some e \<Rightarrow> Error e = Error DeadlineExceeded \<or> Error e = Error Canceled)"

text \<open>
  The environment of one \<open>ExecuteQuery\<close> call:
  \<^item> \<open>now_Get\<close> and \<open>now_Set\<close> are the clock readings of the cache's \<open>Get\<close> and
    \<open>Set\<close> (sweep, \<open>created\<close>, \<open>expires\<close>);
  \<^item> \<open>semaphore\<close> decides the \<^verbatim>\<open>select\<close> on the semaphore: \<open>None\<close> when a slot is
    acquired, \<open>Some e\<close> when \<^verbatim>\<open>ctx.Done()\<close> fires first, \<open>e\<close> being \<^verbatim>\<open>ctx.Err()\<close>;
  \<^item> by attempt: \<open>loop_ctxErr\<close> is \<^verbatim>\<open>ctx.Err()\<close> at the top of the iteration,
    \<open>backoff_ctxDone\<close> decides the select of the backoff (which sleeps
    \<open>attempt * attempt * 100\<close> milliseconds), \<open>gather\<close> is what
    \<^verbatim>\<open>gatherer.GatherSingle\<close> returns, \<open>after_ctxErr\<close> is \<^verbatim>\<open>ctx.Err()\<close> as read
    after a failed attempt.
\<close>

record 's exec_env =
  now_Get :: instant
  semaphore :: "error option"
  loop_ctxErr :: "nat \<Rightarrow> error option"
  backoff_ctxDone :: "nat \<Rightarrow> error option"
  gather :: "nat \<Rightarrow> 's list \<times> error option"
  after_ctxErr :: "nat \<Rightarrow> error option"
  now_Set :: "instant \<times> instant \<times> instant"

function qe_retry_loop :: "'s exec_env \<Rightarrow> nat \<Rightarrow> error option \<Rightarrow> 's list \<times> error option" where
  "qe_retry_loop env attempt lastErr =
     (if attempt < MaxRetransmission then
        (case loop_ctxErr env attempt of
           Some ce \<Rightarrow> ([], Some ce)
         | None \<Rightarrow>
        (case (if attempt > 0 then backoff_ctxDone env attempt else None) of
           Some ce \<Rightarrow> ([], Some ce)
         | None \<Rightarrow>
        (let res = gather env attempt
         in if snd res = None then (fst res, None)
            else if metric_isContextError (snd res) then ([], snd res)
            else (case after_ctxErr env attempt of
                    Some ce \<Rightarrow> ([], Some ce)
                  | None \<Rightarrow> qe_retry_loop env (Suc attempt) (snd res)))))
      else ([], Some (case lastErr of
                        Some e \<Rightarrow> Errorf ''query failed after 3 attempts: '' e
                      | None \<Rightarrow> ErrorString ''query failed after 3 attempts: %!w(<nil>)'')))"
  by pat_completeness auto
termination
  by (relation "measure (\<lambda>(env, attempt, lastErr). MaxRetransmission - attempt)") auto

declare qe_retry_loop.simps [simp del]

definition qe_executeWithRetry :: "'s exec_env \<Rightarrow> 's list \<times> error option" where
  "qe_executeWithRetry env = qe_retry_loop env 0 None"

text \<open>
  \<open>ExecuteQuery\<close>. \<open>gathererID\<close> is \<^verbatim>\<open>gatherer.ID()\<close>, and \<open>zeroRange\<close> is the
  zero value of \<open>model.Range\<close>, which the time range built from \<open>t\<close> carries.
  The package holds a second \<open>ExecuteQuery\<close>, keyed by a query string and a time
  range handed in by the caller; it is the same sequence of steps (look up, wait for a
  slot, retry loop, \<open>RecordError\<close> or \<open>Set\<close> and \<open>RecordSuccess\<close>) and differs only
  in the types of its arguments.
\<close>

definition ExecuteQuery ::
  "(string \<Rightarrow> string) \<Rightarrow> 'r \<Rightarrow> 's exec_env \<Rightarrow> 's QueryExecutor \<Rightarrow> string \<Rightarrow> model_Query \<Rightarrow> instant
     \<Rightarrow> ('s list \<times> error option) \<times> 's QueryExecutor" where
  "ExecuteQuery sha256hex zeroRange env qe gathererID query t =
     (let tr = \<lparr>Start = t, End = t, Range = zeroRange\<rparr>;
          key = NewCacheKey gathererID (Expr query) tr;
          looked = Get sha256hex (cache qe) key (now_Get env);
          qe1 = qe\<lparr>cache := snd looked\<rparr>
      in if snd (fst looked) then
           ((fst (fst looked), None), qe1\<lparr>qe_metrics := RecordCacheHit (qe_metrics qe1)\<rparr>)
         else
           (case semaphore env of
              Some ce \<Rightarrow>
                (([], Some (Errorf ''query execution timeout waiting for rate limit: '' ce)), qe1)
            | None \<Rightarrow>
                (let res = qe_executeWithRetry env
                 in case snd res of
                      Some err \<Rightarrow> (([], Some err), qe1\<lparr>qe_metrics := RecordError (qe_metrics qe1) err\<rparr>)
                    | None \<Rightarrow>
                        ((fst res, None),
                         qe1\<lparr>cache := (case now_Set env of (n1, n2, n3) \<Rightarrow>
                                          Set sha256hex (cache qe1) key (fst res) n1 n2 n3),
                             qe_metrics := RecordSuccess (qe_metrics qe1)\<rparr>))))"

section \<open>The dashboard wave (internal/view/page, dashboard.Sync)\<close>

text \<open>
  A widget is a \<open>Syncer\<close> of another package; in one wave its \<open>Sync\<close> either
  returns (an error or nil, and \<^verbatim>\<open>widgetCtx.Err()\<close> as the task reads it next) or
  panics with a value, given by its printed text. A nil widget is \<open>None\<close>.
\<close>

datatype sync_outcome = Returns "error option" "error option" | Panics string

text \<open>
  The body of the goroutine of one widget, as the list of the errors it sends to
  \<open>errorChan\<close>, the deferred recovery included.
\<close>

fun widget_task :: "sync_outcome option \<Rightarrow> error list" where
  "widget_task None = [ErrorString ''widget is nil, skipping sync'']"
| "widget_task (Some (Panics v)) = [ErrorString (''widget sync panic recovered: '' @ v)]"
| "widget_task (Some (Returns None ce)) = []"
| "widget_task (Some (Returns (Some err) ce)) =
     (if ce = Some DeadlineExceeded then [Errorf ''widget sync timeout: '' err]
      else if ce = Some Canceled then [Errorf ''widget sync canceled: '' err]
      else [Errorf ''error syncing widget: '' err])"

text \<open>
  A send to a buffered channel of capacity \<open>n\<close> that nobody receives from yet: it
  blocks for good (\<open>None\<close>) when the buffer is full.
\<close>

definition chan_send :: "nat \<Rightarrow> 'a list \<Rightarrow> 'a \<Rightarrow> 'a list option" where
  "chan_send n buf x = (if length buf < n then Some (buf @ [x]) else None)"

fun chan_send_all :: "nat \<Rightarrow> 'a list \<Rightarrow> 'a list \<Rightarrow> 'a list option" where
  "chan_send_all n buf [] = Some buf"
| "chan_send_all n buf (x # xs) =
     (case chan_send n buf x of None \<Rightarrow> None | Some buf' \<Rightarrow> chan_send_all n buf' xs)"

text \<open>
  The wave: the tasks of the widgets run to their end one after the other in the order
  \<open>order\<close> in which the scheduler happens to finish them, each sending into the
  channel; \<open>None\<close> when a task blocks on the channel, so that the join never returns.
\<close>

fun run_tasks :: "nat \<Rightarrow> error list \<Rightarrow> sync_outcome option list \<Rightarrow> error list option" where
  "run_tasks n buf [] = Some buf"
| "run_tasks n buf (w # ws) =
     (case chan_send_all n buf (widget_task w) of
        None \<Rightarrow> None
      | Some buf' \<Rightarrow> run_tasks n buf' ws)"

text \<open>
  The logger is a collaborator of another package. \<open>Logger_Errorf format args\<close> is one
  call \<^verbatim>\<open>d.logger.Errorf(format, args...)\<close>; what the logger prints for it is the
  logger's business.
\<close>

datatype logger_call = Logger_Errorf string "string list"

text \<open>
  \<open>dashboard.Sync\<close>: the channel has room for \<open>len(d.widgets)\<close> errors; after the
  join it is closed and drained, each error's text being handed to the logger as the
  format of an \<open>Errorf\<close> call without arguments, and nil is returned. The result is the
  pair of the calls made to the logger and the error returned, \<open>None\<close> when \<open>Sync\<close>
  never returns.
\<close>

definition dashboard_Sync ::
  "sync_outcome option list \<Rightarrow> sync_outcome option list \<Rightarrow> (logger_call list \<times> error option) option" where
  "dashboard_Sync widgets order =
     (case run_tasks (length widgets) [] order of
        None \<Rightarrow> None
      | Some errorChan \<Rightarrow> Some (map (\<lambda>err. Logger_Errorf (Error err) []) errorChan, None))"

section \<open>Facts about the shared vocabulary\<close>

lemma int_in_binary64: "\<bar>n\<bar> < 2 ^ 53 \<Longrightarrow> of_int n \<in> binary64"
proof -
  assume "\<bar>n\<bar> < 2 ^ 53"
  then have "real_of_int n = of_int n * 2 powi 0 \<and> \<bar>n\<bar> < 2 ^ 53 \<and> - 1074 \<le> (0::int) \<and> (0::int) \<le> 971"
    by simp
  then show ?thesis unfolding binary64_def by blast
qed

lemma rounding_int: "is_rounding r \<Longrightarrow> \<bar>n\<bar> < 2 ^ 53 \<Longrightarrow> r (of_int n) = of_int n"
  using int_in_binary64 unfolding is_rounding_def by blast

lemma rounding_0: "is_rounding r \<Longrightarrow> r 0 = 0"
  using rounding_int[of r 0] by simp

lemma rounding_1: "is_rounding r \<Longrightarrow> r 1 = 1"
  using rounding_int[of r 1] by simp

lemma rounding_mono: "is_rounding r \<Longrightarrow> x \<le> y \<Longrightarrow> r x \<le> r y"
  unfolding is_rounding_def by blast

lemma rounding_id: "is_rounding (\<lambda>x. x)"
  unfolding is_rounding_def by simp

lemma wrap64_id: "- (2 ^ 63) \<le> x \<Longrightarrow> x < 2 ^ 63 \<Longrightarrow> wrap64 x = x"
  unfolding wrap64_def by simp

lemma float64_total_pos:
  assumes "is_rounding (fl F)" and "0 < n"
  shows "0 < float64 F n"
proof -
  have "(1::real) \<le> of_int n" using assms(2) by linarith
  then have "fl F 1 \<le> fl F (of_int n)" using rounding_mono[OF assms(1)] by blast
  then show ?thesis using rounding_1[OF assms(1)] by (simp add: float64_def)
qed

section \<open>MetricCache: the properties\<close>

text \<open>
  C1. The claim asks that the key under which \<open>Set\<close> stores and \<open>Get\<close> looks up
  depends on the whole triple of datasource ID, query and time range. In the code the
  index string is computed from the datasource ID and the query alone: two keys that
  differ only in the time range index the same entry, and data stored for the range
  0 to 10 is returned, as a hit, to a lookup for the range 100 to 200.
\<close>

theorem cache_key_ignores_time_range:
  "cacheKey sha256hex (NewCacheKey ds q tr1) = cacheKey sha256hex (NewCacheKey ds q tr2)
   \<and> fst (Get sha256hex
        (Set sha256hex (NewMetricCache 100 (30 * Second))
           (NewCacheKey ''prom'' ''up'' \<lparr>Start = 0, End = 10, Range = r1\<rparr>) d 0 0 0)
        (NewCacheKey ''prom'' ''up'' \<lparr>Start = 100, End = 200, Range = r2\<rparr>) 1) = (d, True)"
  by (simp add: Get_def Set_def Let_def NewMetricCache_def NewCacheKey_def cacheKey_def Second_def wrap64_def evictOldEntries_def)

text \<open>
  C7 (amended). A \<open>Set\<close> followed by a \<open>Get\<close> with the same key returns the stored
  data and \<open>found = true\<close>, provided the clock reading of the \<open>Get\<close> is earlier than
  the expiry of the new entry, that is, than the reading of \<open>Set\<close> plus \<open>maxAge\<close>.
\<close>

theorem Set_then_Get_before_expiry:
  assumes "now < now_expires + maxAge mc"
  shows "fst (Get sha256hex (Set sha256hex mc key d now_evict now_created now_expires) key now) = (d, True)"
  using assms
  by (simp add: Get_def Set_def Let_def evictOldEntries_def update_conv')

theorem Set_then_Get_before_expiry_witness:
  "\<forall>sha256hex. (10::int) < 0 + maxAge (NewMetricCache 100 (30 * Second) :: nat MetricCache)
    \<and> fst (Get sha256hex
         (Set sha256hex (NewMetricCache 100 (30 * Second))
            (NewCacheKey ''prom'' ''up'' \<lparr>Start = 0, End = 10, Range = ()\<rparr>) [7::nat] 0 0 0)
         (NewCacheKey ''prom'' ''up'' \<lparr>Start = 0, End = 10, Range = ()\<rparr>) 10) = ([7], True)"
proof
  fix sha256hex :: "string \<Rightarrow> string"
  have h: "(10::int) < 0 + maxAge (NewMetricCache 100 (30 * Second) :: nat MetricCache)"
    by (simp add: NewMetricCache_def Second_def)
  show "(10::int) < 0 + maxAge (NewMetricCache 100 (30 * Second) :: nat MetricCache)
    \<and> fst (Get sha256hex
         (Set sha256hex (NewMetricCache 100 (30 * Second))
            (NewCacheKey ''prom'' ''up'' \<lparr>Start = 0, End = 10, Range = ()\<rparr>) [7::nat] 0 0 0)
         (NewCacheKey ''prom'' ''up'' \<lparr>Start = 0, End = 10, Range = ()\<rparr>) 10) = ([7], True)"
    using h Set_then_Get_before_expiry[OF h] by simp
qed

text \<open>
  As the claim is written, for any cache, it fails: on a cache built with
  \<open>maxAge = 0\<close> the entry is expired at the very clock reading at which it is stored,
  and the \<open>Get\<close> that follows at once is a miss.
\<close>

theorem Set_then_immediate_Get_zero_maxAge:
  "\<forall>sha256hex.
     fst (Get sha256hex
       (Set sha256hex (NewMetricCache 100 0)
          (NewCacheKey ''prom'' ''up'' \<lparr>Start = 0, End = 10, Range = ()\<rparr>) [7::nat] 0 0 0)
       (NewCacheKey ''prom'' ''up'' \<lparr>Start = 0, End = 10, Range = ()\<rparr>) 0) = ([], False)"
  by (simp add: Get_def Set_def Let_def NewMetricCache_def wrap64_def evictOldEntries_def)

text \<open>
  C10. \<open>Stats\<close> never divides by zero and always has a finite hit rate: the division
  is made only when the total is positive, and then the divisor, the total converted to
  float64, is not zero. With counters that are not negative and whose sum fits in 64
  bits (they start at zero and are only incremented), the hit rate is 0 when hits +
  misses is 0 and is otherwise the float64 value of hits / (hits + misses) * 100, which
  is that number itself where float64 arithmetic is exact. A fresh cache and a cleared
  cache have hit rate 0.
\<close>

theorem Stats_total:
  assumes "is_rounding (fl F)"
  shows "(\<exists>r. HitRate (Stats F (mc :: 's MetricCache)) = Some r)
     \<and> (0 \<le> hits mc \<and> 0 \<le> misses mc \<and> hits mc + misses mc < 2 ^ 63 \<longrightarrow>
          (hits mc + misses mc = 0 \<longrightarrow> HitRate (Stats F mc) = Some 0) \<and>
          (hits mc + misses mc \<noteq> 0 \<longrightarrow>
             float64 F (hits mc + misses mc) \<noteq> 0 \<and>
             HitRate (Stats F mc) =
               Some (fl F (fl F (float64 F (hits mc) / float64 F (hits mc + misses mc)) * 100)) \<and>
             ((\<forall>x. fl F x = x) \<longrightarrow>
                HitRate (Stats F mc) = Some (of_int (hits mc) / of_int (hits mc + misses mc) * 100))))
     \<and> HitRate (Stats F (NewMetricCache n a :: 's MetricCache)) = Some 0
     \<and> HitRate (Stats F (Clear mc)) = Some 0"
proof (intro conjI impI)
  show "\<exists>r. HitRate (Stats F mc) = Some r"
  proof (cases "wrap64 (hits mc + misses mc) > 0")
    case True
    then show ?thesis
      using float64_total_pos[OF assms True] by (simp add: Stats_def Let_def float_div_def)
  next
    case False
    then show ?thesis by (simp add: Stats_def Let_def)
  qed
next
  show "HitRate (Stats F (NewMetricCache n a :: 's MetricCache)) = Some 0"
    by (simp add: Stats_def NewMetricCache_def wrap64_def)
next
  show "HitRate (Stats F (Clear mc)) = Some 0"
    by (simp add: Stats_def Clear_def wrap64_def)
next
  assume "0 \<le> hits mc \<and> 0 \<le> misses mc \<and> hits mc + misses mc < 2 ^ 63" "hits mc + misses mc = 0"
  then show "HitRate (Stats F mc) = Some 0"
    by (simp add: Stats_def wrap64_def)
next
  assume b: "0 \<le> hits mc \<and> 0 \<le> misses mc \<and> hits mc + misses mc < 2 ^ 63"
    and nz: "hits mc + misses mc \<noteq> 0"
  have w: "wrap64 (hits mc + misses mc) = hits mc + misses mc"
    using b by (intro wrap64_id) auto
  have pos: "0 < hits mc + misses mc" using b nz by linarith
  have fpos: "0 < float64 F (hits mc + misses mc)"
    using float64_total_pos[OF assms pos] .
  show "float64 F (hits mc + misses mc) \<noteq> 0" using fpos by simp
  show r: "HitRate (Stats F mc) =
      Some (fl F (fl F (float64 F (hits mc) / float64 F (hits mc + misses mc)) * 100))"
    using fpos pos by (simp add: Stats_def Let_def float_div_def w)
  assume "\<forall>x. fl F x = x"
  then show "HitRate (Stats F mc) = Some (of_int (hits mc) / of_int (hits mc + misses mc) * 100)"
    unfolding r by (simp add: float64_def)
qed

theorem Stats_total_witness:
  "is_rounding (fl \<lparr>fl = (\<lambda>x. x), ovf = (\<lambda>x. 0)\<rparr>)
   \<and> (0::int) \<le> 3 \<and> (0::int) \<le> 1 \<and> (3::int) + 1 < 2 ^ 63 \<and> (3::int) + 1 \<noteq> 0
   \<and> HitRate (Stats \<lparr>fl = (\<lambda>x. x), ovf = (\<lambda>x. 0)\<rparr>
        (\<lparr>entries = [], maxSize = 100, maxAge = 30 * Second, hits = 3, misses = 1\<rparr> :: nat MetricCache)) = Some 75
   \<and> HitRate (Stats \<lparr>fl = (\<lambda>x. x), ovf = (\<lambda>x. 0)\<rparr>
        (\<lparr>entries = [], maxSize = 100, maxAge = 30 * Second, hits = 0, misses = 0\<rparr> :: nat MetricCache)) = Some 0"
proof -
  have r: "is_rounding (fl \<lparr>fl = (\<lambda>x. x), ovf = (\<lambda>x. 0)\<rparr>)"
    by (simp add: rounding_id)
  have a: "HitRate (Stats \<lparr>fl = (\<lambda>x. x), ovf = (\<lambda>x. 0)\<rparr>
        (\<lparr>entries = [], maxSize = 100, maxAge = 30 * Second, hits = 3, misses = 1\<rparr> :: nat MetricCache)) = Some 75"
    using Stats_total[OF r, of "\<lparr>entries = [], maxSize = 100, maxAge = 30 * Second, hits = 3, misses = 1\<rparr> :: nat MetricCache" 0 0]
    by (simp add: float64_def)
  have b: "HitRate (Stats \<lparr>fl = (\<lambda>x. x), ovf = (\<lambda>x. 0)\<rparr>
        (\<lparr>entries = [], maxSize = 100, maxAge = 30 * Second, hits = 0, misses = 0\<rparr> :: nat MetricCache)) = Some 0"
    using Stats_total[OF r, of "\<lparr>entries = [], maxSize = 100, maxAge = 30 * Second, hits = 0, misses = 0\<rparr> :: nat MetricCache" 0 0]
    by simp
  show ?thesis using r a b by simp
qed

section \<open>The enhanced gatherer: the properties\<close>

subsection \<open>The timeout of a range query\<close>

lemma pow2_in_binary64: "0 \<le> k \<Longrightarrow> k \<le> 971 \<Longrightarrow> 2 powi k \<in> binary64"
proof -
  assume "0 \<le> k" "k \<le> 971"
  then have "(2::real) powi k = of_int 1 * 2 powi k \<and> \<bar>1::int\<bar> < 2 ^ 53 \<and> - 1074 \<le> k \<and> k \<le> 971"
    by simp
  then show ?thesis unfolding binary64_def by blast
qed

lemma rounding_pow2: "is_rounding r \<Longrightarrow> r (2 ^ 63) = 2 ^ 63" "is_rounding r \<Longrightarrow> r (2 ^ 22) = 2 ^ 22"
  "is_rounding r \<Longrightarrow> r (2 ^ 57) = 2 ^ 57"
  using pow2_in_binary64[of 63] pow2_in_binary64[of 22] pow2_in_binary64[of 57] unfolding is_rounding_def by auto

lemma succ_one_in_binary64: "1 + 1 / 2 ^ 52 \<in> binary64"
proof -
  have "(1::real) + 1 / 2 ^ 52 = of_int (2 ^ 52 + 1) * 2 powi (- 52) \<and> \<bar>2 ^ 52 + 1 :: int\<bar> < 2 ^ 53
     \<and> - 1074 \<le> (- 52 :: int) \<and> (- 52 :: int) \<le> 971"
    by (simp add: power_int_minus field_simps)
  then show ?thesis unfolding binary64_def by blast
qed

lemma real_trunc_mono: "x \<le> y \<Longrightarrow> real_trunc x \<le> real_trunc y"
  unfolding real_trunc_def
  by (auto intro: floor_mono ceiling_mono) (smt (verit) ceiling_le_zero zero_le_floor order_trans)+


lemma real_trunc_of_int: "real_trunc (of_int n) = n"
  unfolding real_trunc_def by simp

lemma time_Sub_mono: "e1 - s1 \<le> e2 - s2 \<Longrightarrow> time_Sub e1 s1 \<le> time_Sub e2 s2"
  unfolding time_Sub_def Let_def minDuration_def maxDuration_def by auto

lemma time_Sub_bounds: "minDuration \<le> time_Sub e s \<and> time_Sub e s \<le> maxDuration"
  unfolding time_Sub_def Let_def minDuration_def maxDuration_def by auto

lemma time_Sub_le_Hour: "e - s \<le> Hour \<Longrightarrow> time_Sub e s \<le> Hour"
  unfolding time_Sub_def Let_def minDuration_def maxDuration_def Hour_def by auto

lemma time_Sub_gt_Hour: "e - s > Hour \<Longrightarrow> time_Sub e s > Hour"
  unfolding time_Sub_def Let_def minDuration_def maxDuration_def Hour_def by auto

lemma scale_le_1:
  assumes R: "is_rounding (fl F)" and "r \<le> Hour"
  shows "fl F (float64 F r / of_int (1 * Hour)) \<le> 1"
proof -
  have "fl F (of_int r) \<le> fl F (of_int Hour)"
    using rounding_mono[OF R] assms(2) by simp
  also have "fl F (of_int Hour) = of_int Hour"
    by (rule rounding_int[OF R]) (simp add: Hour_def)
  finally have "float64 F r / of_int (1 * Hour) \<le> 1"
    by (simp add: float64_def Hour_def)
  then have "fl F (float64 F r / of_int (1 * Hour)) \<le> fl F 1"
    using rounding_mono[OF R] by blast
  then show ?thesis using rounding_1[OF R] by simp
qed

lemma scale_gt_1:
  assumes R: "is_rounding (fl F)" and "Hour < r"
  shows "1 < fl F (float64 F r / of_int (1 * Hour))"
proof -
  have "of_int (Hour + 1) \<le> (of_int r :: real)" using assms(2) by linarith
  then have "fl F (of_int (Hour + 1)) \<le> fl F (of_int r)"
    using rounding_mono[OF R] by blast
  moreover have "fl F (of_int (Hour + 1)) = of_int (Hour + 1)"
    by (rule rounding_int[OF R]) (simp add: Hour_def)
  ultimately have "of_int (Hour + 1) \<le> float64 F r" by (simp add: float64_def)
  then have "of_int (Hour + 1) / of_int (1 * Hour) \<le> float64 F r / (of_int (1 * Hour) :: real)"
    by (simp add: Hour_def divide_right_mono)
  moreover have "(1::real) + 1 / 2 ^ 52 \<le> of_int (Hour + 1) / of_int (1 * Hour)"
    by (simp add: Hour_def)
  ultimately have "(1::real) + 1 / 2 ^ 52 \<le> float64 F r / of_int (1 * Hour)" by linarith
  then have "fl F (1 + 1 / 2 ^ 52) \<le> fl F (float64 F r / of_int (1 * Hour))"
    using rounding_mono[OF R] by blast
  moreover have "fl F (1 + 1 / 2 ^ 52) = 1 + 1 / 2 ^ 52"
    using R succ_one_in_binary64 unfolding is_rounding_def by blast
  ultimately have "(1::real) + 1 / 2 ^ 52 \<le> fl F (float64 F r / of_int (1 * Hour))" by simp
  moreover have "(1::real) < 1 + 1 / 2 ^ 52" by simp
  ultimately show ?thesis by linarith
qed

lemma scale_le_pow22:
  assumes R: "is_rounding (fl F)" and "r \<le> maxDuration"
  shows "fl F (float64 F r / of_int (1 * Hour)) \<le> 2 ^ 22"
proof -
  have "(of_int r :: real) \<le> 2 ^ 63" using assms(2) unfolding maxDuration_def
    by (metis (mono_tags) of_int_le_iff of_int_numeral of_int_power diff_le_eq le_add_same_cancel1 order_trans zero_le_one)
  then have "fl F (of_int r) \<le> fl F (2 ^ 63)" using rounding_mono[OF R] by blast
  then have "float64 F r \<le> 2 ^ 63" using rounding_pow2(1)[OF R] by (simp add: float64_def)
  then have "float64 F r / of_int (1 * Hour) \<le> 2 ^ 63 / (of_int (1 * Hour) :: real)"
    by (simp add: Hour_def divide_right_mono)
  moreover have "2 ^ 63 / (of_int (1 * Hour) :: real) \<le> 2 ^ 22" by (simp add: Hour_def)
  ultimately have "float64 F r / of_int (1 * Hour) \<le> (2 ^ 22 :: real)" by linarith
  then have "fl F (float64 F r / of_int (1 * Hour)) \<le> fl F (2 ^ 22)"
    using rounding_mono[OF R] by blast
  then show ?thesis using rounding_pow2(2)[OF R] by simp
qed


lemma scaled_timeout_bounds:
  assumes R: "is_rounding (fl F)" and b: "0 \<le> base" "base \<le> 30 * Second"
    and sf: "1 < sf" "sf \<le> 2 ^ 22"
  shows "of_int base \<le> fl F (float64 F base * sf)" and "fl F (float64 F base * sf) \<le> 2 ^ 57"
proof -
  have fb: "float64 F base = of_int base"
    unfolding float64_def using b by (intro rounding_int[OF R]) (simp add: Second_def)
  have "of_int base * 1 \<le> of_int base * sf"
    using b(1) sf(1) by (intro mult_left_mono) auto
  then have "fl F (of_int base) \<le> fl F (of_int base * sf)"
    using rounding_mono[OF R] by simp
  then show "of_int base \<le> fl F (float64 F base * sf)"
    using fb by (simp add: float64_def)
  have "of_int base * sf \<le> 30000000000 * (2 ^ 22 :: real)"
    using b sf by (intro mult_mono) (auto simp: Second_def)
  also have "\<dots> \<le> 2 ^ 57" by simp
  finally have "fl F (of_int base * sf) \<le> fl F (2 ^ 57)"
    using rounding_mono[OF R] by blast
  then show "fl F (float64 F base * sf) \<le> 2 ^ 57"
    using fb rounding_pow2(3)[OF R] by simp
qed

lemma Duration_of_float_in_range:
  assumes "0 \<le> x" "x \<le> 2 ^ 57"
  shows "Duration_of_float F x = \<lfloor>x\<rfloor>"
proof -
  have "\<lfloor>x\<rfloor> \<le> \<lfloor>2 ^ 57 :: real\<rfloor>" using assms(2) by (rule floor_mono)
  then have "\<lfloor>x\<rfloor> \<le> 2 ^ 57" by simp
  moreover have "0 \<le> \<lfloor>x\<rfloor>" using assms(1) by simp
  ultimately show ?thesis using assms(1)
    by (simp add: Duration_of_float_def real_trunc_def minDuration_def maxDuration_def)
qed

lemma calculateRangeTimeout_short:
  assumes R: "is_rounding (fl F)" and "time_Sub e s \<le> Hour"
  shows "calculateRangeTimeout F eg s e = timeout eg"
  using scale_le_1[OF R assms(2)]
  by (simp add: calculateRangeTimeout_def Let_def timeoutDuration_def)

lemma calculateRangeTimeout_long:
  assumes R: "is_rounding (fl F)" and b: "MinTimeout \<le> timeout eg" "timeout eg \<le> MaxTimeout"
    and "Hour < time_Sub e s"
  shows "calculateRangeTimeout F eg s e =
           min \<lfloor>fl F (float64 F (timeout eg) * fl F (float64 F (time_Sub e s) / of_int (1 * Hour)))\<rfloor>
               (30 * Second)"
    and "timeout eg \<le> calculateRangeTimeout F eg s e"
proof -
  let ?sf = "fl F (float64 F (time_Sub e s) / of_int (1 * Hour))"
  let ?x = "fl F (float64 F (timeout eg) * ?sf)"
  have b': "0 \<le> timeout eg" "timeout eg \<le> 30 * Second"
    using b by (simp_all add: MinTimeout_def MaxTimeout_def Second_def)
  have sf1: "1 < ?sf" using scale_gt_1[OF R assms(4)] .
  have sf2: "?sf \<le> 2 ^ 22" using scale_le_pow22[OF R] time_Sub_bounds by blast
  have x1: "of_int (timeout eg) \<le> ?x" and x2: "?x \<le> 2 ^ 57"
    using scaled_timeout_bounds[OF R b' sf1 sf2] by blast+
  have x0: "0 \<le> ?x" using x1 b'(1) by linarith
  have d: "Duration_of_float F ?x = \<lfloor>?x\<rfloor>"
    using Duration_of_float_in_range[OF x0 x2] .
  have d': "Duration_of_float F (fl F (float64 F (timeout eg) * fl F (float64 F (time_Sub e s) / of_int Hour)))
              = \<lfloor>fl F (float64 F (timeout eg) * fl F (float64 F (time_Sub e s) / of_int Hour))\<rfloor>"
    using d by simp
  show eq: "calculateRangeTimeout F eg s e = min \<lfloor>?x\<rfloor> (30 * Second)"
    using sf1 by (simp add: calculateRangeTimeout_def Let_def timeoutDuration_def d' min_def)
  have "timeout eg \<le> \<lfloor>?x\<rfloor>" using x1 by (simp add: le_floor_iff)
  then show "timeout eg \<le> calculateRangeTimeout F eg s e"
    unfolding eq using b'(2) by simp
qed

lemma calculateRangeTimeout_mono_Sub:
  assumes R: "is_rounding (fl F)" and b: "MinTimeout \<le> timeout eg" "timeout eg \<le> MaxTimeout"
    and le: "time_Sub e1 s1 \<le> time_Sub e2 s2"
  shows "calculateRangeTimeout F eg s1 e1 \<le> calculateRangeTimeout F eg s2 e2"
proof (cases "time_Sub e1 s1 \<le> Hour")
  case short1: True
  show ?thesis
  proof (cases "time_Sub e2 s2 \<le> Hour")
    case True
    then show ?thesis
      using calculateRangeTimeout_short[OF R short1] calculateRangeTimeout_short[OF R True] by simp
  next
    case False
    then have "Hour < time_Sub e2 s2" by simp
    then show ?thesis
      using calculateRangeTimeout_short[OF R short1] calculateRangeTimeout_long(2)[OF R b] by simp
  qed
next
  case False
  then have l1: "Hour < time_Sub e1 s1" by simp
  then have l2: "Hour < time_Sub e2 s2" using le by linarith
  let ?sf1 = "fl F (float64 F (time_Sub e1 s1) / of_int (1 * Hour))"
  let ?sf2 = "fl F (float64 F (time_Sub e2 s2) / of_int (1 * Hour))"
  have fb: "float64 F (timeout eg) = of_int (timeout eg)"
    unfolding float64_def using b
    by (intro rounding_int[OF R]) (simp add: MinTimeout_def MaxTimeout_def Second_def)
  have "float64 F (time_Sub e1 s1) \<le> float64 F (time_Sub e2 s2)"
    unfolding float64_def using rounding_mono[OF R] le by simp
  then have "float64 F (time_Sub e1 s1) / of_int (1 * Hour) \<le> float64 F (time_Sub e2 s2) / (of_int (1 * Hour) :: real)"
    by (simp add: Hour_def divide_right_mono)
  then have "?sf1 \<le> ?sf2" using rounding_mono[OF R] by blast
  moreover have "0 \<le> float64 F (timeout eg)"
    using fb b by (simp add: MinTimeout_def Second_def)
  ultimately have "float64 F (timeout eg) * ?sf1 \<le> float64 F (timeout eg) * ?sf2"
    by (rule mult_left_mono)
  then have "fl F (float64 F (timeout eg) * ?sf1) \<le> fl F (float64 F (timeout eg) * ?sf2)"
    using rounding_mono[OF R] by blast
  then have "\<lfloor>fl F (float64 F (timeout eg) * ?sf1)\<rfloor> \<le> \<lfloor>fl F (float64 F (timeout eg) * ?sf2)\<rfloor>"
    by (rule floor_mono)
  then show ?thesis
    unfolding calculateRangeTimeout_long(1)[OF R b l1] calculateRangeTimeout_long(1)[OF R b l2]
    by simp
qed

lemma calculateRangeTimeout_le_Max:
  assumes R: "is_rounding (fl F)" and b: "MinTimeout \<le> timeout eg" "timeout eg \<le> MaxTimeout"
  shows "calculateRangeTimeout F eg s e \<le> 30 * Second"
proof (cases "time_Sub e s \<le> Hour")
  case True
  then show ?thesis using calculateRangeTimeout_short[OF R True] b by (simp add: MaxTimeout_def)
next
  case False
  then have "Hour < time_Sub e s" by simp
  then show ?thesis using calculateRangeTimeout_long(1)[OF R b] by simp
qed

lemma SetTimeout_clamped: "MinTimeout \<le> timeout (SetTimeout eg d) \<and> timeout (SetTimeout eg d) \<le> MaxTimeout"
  by (simp add: SetTimeout_def Let_def MinTimeout_def MaxTimeout_def DefaultTimeout_def Second_def)

lemma NewEnhancedGatherer_clamped:
  "MinTimeout \<le> timeout (NewEnhancedGatherer i) \<and> timeout (NewEnhancedGatherer i) \<le> MaxTimeout"
  by (simp add: NewEnhancedGatherer_def MinTimeout_def MaxTimeout_def DefaultTimeout_def Second_def)

text \<open>
  C6. For a base timeout within the bounds that \<open>SetTimeout\<close> and the constructor
  keep (from 1s to 30s), \<open>calculateRangeTimeout\<close> is non-decreasing in the length
  \<open>end - start\<close> of the range and never exceeds 30s; for a range of one hour or less
  it is the base timeout, and for a longer range it is the base timeout times
  \<open>rangeDuration / 1h\<close>, computed in float64 and truncated to a Duration, capped at
  \<open>MaxTimeout\<close>. The platform's out-of-range conversion \<open>ovf\<close> is never reached.
\<close>

theorem calculateRangeTimeout_monotone_capped:
  assumes "is_rounding (fl F)" and "MinTimeout \<le> timeout eg" and "timeout eg \<le> MaxTimeout"
  shows "(e1 - s1 \<le> e2 - s2 \<longrightarrow> calculateRangeTimeout F eg s1 e1 \<le> calculateRangeTimeout F eg s2 e2)
     \<and> calculateRangeTimeout F eg s e \<le> 30 * Second
     \<and> (e - s \<le> Hour \<longrightarrow> calculateRangeTimeout F eg s e = timeout eg)
     \<and> (Hour < e - s \<longrightarrow>
          calculateRangeTimeout F eg s e =
            min \<lfloor>fl F (float64 F (timeout eg) * fl F (float64 F (time_Sub e s) / of_int (1 * Hour)))\<rfloor>
                MaxTimeout)"
proof (intro conjI impI)
  assume "e1 - s1 \<le> e2 - s2"
  then show "calculateRangeTimeout F eg s1 e1 \<le> calculateRangeTimeout F eg s2 e2"
    using calculateRangeTimeout_mono_Sub[OF assms] time_Sub_mono by blast
next
  show "calculateRangeTimeout F eg s e \<le> 30 * Second"
    using calculateRangeTimeout_le_Max[OF assms] .
next
  assume "e - s \<le> Hour"
  then show "calculateRangeTimeout F eg s e = timeout eg"
    using calculateRangeTimeout_short[OF assms(1)] time_Sub_le_Hour by blast
next
  assume "Hour < e - s"
  then have "Hour < time_Sub e s" by (rule time_Sub_gt_Hour)
  then show "calculateRangeTimeout F eg s e =
            min \<lfloor>fl F (float64 F (timeout eg) * fl F (float64 F (time_Sub e s) / of_int (1 * Hour)))\<rfloor>
                MaxTimeout"
    using calculateRangeTimeout_long(1)[OF assms] by (simp add: MaxTimeout_def)
qed

theorem calculateRangeTimeout_monotone_capped_witness:
  "is_rounding (fl \<lparr>fl = (\<lambda>x. x), ovf = (\<lambda>x. 0)\<rparr>)
   \<and> MinTimeout \<le> timeout (NewEnhancedGatherer ''prom'')
   \<and> timeout (NewEnhancedGatherer ''prom'') \<le> MaxTimeout
   \<and> 1800 * Second - 0 \<le> Hour \<and> Hour < 5400 * Second - 0 \<and> Hour < 86400 * Second - 0
   \<and> calculateRangeTimeout \<lparr>fl = (\<lambda>x. x), ovf = (\<lambda>x. 0)\<rparr> (NewEnhancedGatherer ''prom'') 0 (1800 * Second)
        = 5 * Second
   \<and> calculateRangeTimeout \<lparr>fl = (\<lambda>x. x), ovf = (\<lambda>x. 0)\<rparr> (NewEnhancedGatherer ''prom'') 0 (5400 * Second)
        = 7500 * Millisecond
   \<and> calculateRangeTimeout \<lparr>fl = (\<lambda>x. x), ovf = (\<lambda>x. 0)\<rparr> (NewEnhancedGatherer ''prom'') 0 (86400 * Second)
        = 30 * Second"
proof -
  let ?F = "\<lparr>fl = (\<lambda>x. x), ovf = (\<lambda>x. 0)\<rparr>"
  let ?eg = "NewEnhancedGatherer ''prom''"
  have r: "is_rounding (fl ?F)" by (simp add: rounding_id)
  have b: "MinTimeout \<le> timeout ?eg" "timeout ?eg \<le> MaxTimeout"
    using NewEnhancedGatherer_clamped by blast+
  have h: "1800 * Second - 0 \<le> Hour" "Hour < 5400 * Second - 0" "Hour < 86400 * Second - 0"
    by (simp_all add: Second_def Hour_def)
  have t: "timeout ?eg = 5 * Second"
    by (simp add: NewEnhancedGatherer_def DefaultTimeout_def)
  have "calculateRangeTimeout ?F ?eg 0 (1800 * Second) = 5 * Second"
    using calculateRangeTimeout_monotone_capped[OF r b, of 0 0 0 0 0 "1800 * Second"] h(1) t by simp
  moreover have "calculateRangeTimeout ?F ?eg 0 (5400 * Second) = 7500 * Millisecond"
    using calculateRangeTimeout_monotone_capped[OF r b, of 0 0 0 0 0 "5400 * Second"] h(2)
    by (simp add: t float64_def Second_def Hour_def MaxTimeout_def Millisecond_def time_Sub_def
        maxDuration_def minDuration_def)
  moreover have "calculateRangeTimeout ?F ?eg 0 (86400 * Second) = 30 * Second"
    using calculateRangeTimeout_monotone_capped[OF r b, of 0 0 0 0 0 "86400 * Second"] h(3)
    by (simp add: t float64_def Second_def Hour_def MaxTimeout_def time_Sub_def
        maxDuration_def minDuration_def)
  ultimately show ?thesis using r b h by simp
qed

subsection \<open>The retry loop\<close>

lemmas retry_loop_unroll =
  retry_loop.simps[of _ _ _ 2 0] retry_loop.simps[of _ _ _ 2 "Suc 0"]
  retry_loop.simps[of _ _ _ 2 "Suc (Suc 0)"]

lemma GetMetrics_recordExecutionTime [simp]:
  "GetMetrics (recordExecutionTime F eg d) = GetMetrics eg"
  by (simp add: GetMetrics_def recordExecutionTime_def Let_def split: option.splits)

lemma GetMetrics_mark:
  "metrics eg = Some m \<Longrightarrow> GetMetrics (markFailure eg) =
     \<lparr>TotalQueries = wrap64 (queriesTotal m + 1), SuccessfulQueries = queriesSuccessful m,
      FailedQueries = wrap64 (queriesFailed m + 1), TimeoutQueries = queriesTimeout m\<rparr>"
  "metrics eg = Some m \<Longrightarrow> GetMetrics (markTimeout eg) =
     \<lparr>TotalQueries = wrap64 (queriesTotal m + 1), SuccessfulQueries = queriesSuccessful m,
      FailedQueries = queriesFailed m, TimeoutQueries = wrap64 (queriesTimeout m + 1)\<rparr>"
  "metrics eg = Some m \<Longrightarrow> GetMetrics (markSuccess eg) =
     \<lparr>TotalQueries = wrap64 (queriesTotal m + 1), SuccessfulQueries = wrap64 (queriesSuccessful m + 1),
      FailedQueries = queriesFailed m, TimeoutQueries = queriesTimeout m\<rparr>"
  by (simp_all add: GetMetrics_def markFailure_def markTimeout_def markSuccess_def)

lemma retry_loop_two_failures:
  assumes "metrics (gatherer r) = Some m"
    and "ctxErr env 0 = None" "ctxErr env (Suc 0) = None" "ctxDone env 0 = None"
    and "snd (queryFunc env 0) = Some e0" "\<not> isContextError (Some e0)"
    and "snd (queryFunc env (Suc 0)) = Some e1" "\<not> isContextError (Some e1)"
  shows "retry_loop factor dtext env 2 0 le r =
     (([], Some e1),
      r\<lparr>gatherer := markFailure (gatherer r), attempts := Suc (Suc (attempts r)),
        sleeps := sleeps r @ [Millisecond * factor]\<rparr>)"
  using assms by (simp add: retry_loop_unroll Let_def)

lemma retry_loop_context_error:
  assumes "metrics (gatherer r) = Some m"
    and "ctxErr env 0 = None" 
    and "snd (queryFunc env 0) = Some e" "isContextError (Some e)"
  shows "retry_loop factor dtext env 2 0 le r =
     (([], Some e), r\<lparr>gatherer := markTimeout (gatherer r), attempts := Suc (attempts r)\<rparr>)"
  using assms by (simp add: retry_loop_unroll Let_def)

lemma retry_loop_attempts_le:
  "attempts (snd (retry_loop factor dtext env n k le r)) \<le> attempts r + (n - k)"
proof (induction factor dtext env n k le r rule: retry_loop.induct)
  case (1 factor dtext env n k le r)
  show ?case
  proof (cases "k < n")
    case False
    then show ?thesis by (simp add: retry_loop.simps[of _ _ _ n k])
  next
    case True
    note kn = this
    show ?thesis
    proof (cases "ctxErr env k")
      case (Some ce)
      then show ?thesis using kn by (simp add: retry_loop.simps[of _ _ _ n k])
    next
      case None
      note ce = this
      let ?res = "queryFunc env k"
      let ?r1 = "r\<lparr>attempts := Suc (attempts r)\<rparr>"
      consider (ok) "snd ?res = None" | (ctx) "snd ?res \<noteq> None" "isContextError (snd ?res)"
        | (c_backoff) "snd ?res \<noteq> None" "\<not> isContextError (snd ?res)" "int k < int n - 1"
        | (c_last) "snd ?res \<noteq> None" "\<not> isContextError (snd ?res)" "\<not> int k < int n - 1"
        by blast
      then show ?thesis
      proof cases
        case ok
        then show ?thesis using kn ce by (auto simp add: retry_loop.simps[of _ _ _ n k] Let_def)
      next
        case ctx
        then show ?thesis using kn ce by (auto simp add: retry_loop.simps[of _ _ _ n k] Let_def)
      next
        case c_backoff
        show ?thesis
        proof (cases "ctxDone env k")
          case (Some d)
          then show ?thesis using kn ce c_backoff by (auto simp add: retry_loop.simps[of _ _ _ n k] Let_def)
        next
          case None
          have "attempts (snd (retry_loop factor dtext env n (Suc k) (snd ?res)
                  (?r1\<lparr>sleeps := sleeps ?r1 @ [(int k + 1) * Millisecond * factor]\<rparr>)))
                \<le> attempts (?r1\<lparr>sleeps := sleeps ?r1 @ [(int k + 1) * Millisecond * factor]\<rparr>) + (n - Suc k)"
            using "1.IH"(1)[OF kn ce refl refl _ _ _ refl None] c_backoff by simp
          then show ?thesis using kn ce c_backoff None
            by (auto simp add: retry_loop.simps[of _ _ _ n k] Let_def)
        qed
      next
        case c_last
        have "attempts (snd (retry_loop factor dtext env n (Suc k) (snd ?res) ?r1))
                \<le> attempts ?r1 + (n - Suc k)"
          using "1.IH"(2)[OF kn ce refl refl] c_last by simp
        then show ?thesis using kn ce c_last
          by (auto simp add: retry_loop.simps[of _ _ _ n k] Let_def)
      qed
    qed
  qed
qed


lemma GatherSingle_unfold:
  "GatherSingle F env elapsed eg =
     (let out = retry_loop 100 ''query deadline exceeded: '' env 2 0 None
                  \<lparr>gatherer = eg, ctx_timeout = timeoutDuration eg, attempts = 0, sleeps = []\<rparr>
      in (fst out, (snd out)\<lparr>gatherer := recordExecutionTime F (gatherer (snd out)) elapsed\<rparr>))"
  by (simp add: GatherSingle_def executeWithRetry_def Let_def)

lemma GatherRange_unfold:
  "GatherRange F env elapsed eg start end' =
     (let out = retry_loop 250 ''range query deadline exceeded: '' env 2 0 None
                  \<lparr>gatherer = eg, ctx_timeout = calculateRangeTimeout F eg start end',
                   attempts = 0, sleeps = []\<rparr>
      in (fst out, (snd out)\<lparr>gatherer := recordExecutionTime F (gatherer (snd out)) elapsed\<rparr>))"
  by (simp add: GatherRange_def executeWithRetryForRange_def Let_def)

lemma strings_Contains_append: "strings_Contains s sub \<Longrightarrow> strings_Contains (p @ s) sub"
  by (induction p) auto

text \<open>
  C2 (amended). When the context stays live and every attempt of a \<open>GatherSingle\<close>
  call fails with an error that is not context-classified, the call makes two attempts
  in all (the first try and one retry; no call makes more than two), sleeps a backoff of
  100ms between them, returns the last error as it is, unwrapped, and records a failure
  outcome.
\<close>

theorem GatherSingle_two_attempts_then_failure:
  assumes "metrics eg = Some m"
    and "ctxErr (env :: 's retry_env) 0 = None" and "ctxErr env 1 = None" and "ctxDone env 0 = None"
    and "snd (queryFunc env 0) = Some e0" and "\<not> isContextError (Some e0)"
    and "snd (queryFunc env 1) = Some e1" and "\<not> isContextError (Some e1)"
  shows "fst (GatherSingle F env elapsed eg) = ([], Some e1)
     \<and> attempts (snd (GatherSingle F env elapsed eg)) = 2
     \<and> sleeps (snd (GatherSingle F env elapsed eg)) = [100 * Millisecond]
     \<and> GetMetrics (gatherer (snd (GatherSingle F env elapsed eg))) =
         \<lparr>TotalQueries = wrap64 (queriesTotal m + 1), SuccessfulQueries = queriesSuccessful m,
          FailedQueries = wrap64 (queriesFailed m + 1), TimeoutQueries = queriesTimeout m\<rparr>
     \<and> (\<forall>env' :: 's retry_env. attempts (snd (GatherSingle F env' elapsed eg)) \<le> 2)"
proof -
  let ?r0 = "\<lparr>gatherer = eg, ctx_timeout = timeoutDuration eg, attempts = 0, sleeps = []\<rparr>"
  have m0: "metrics (gatherer ?r0) = Some m" using assms(1) by simp
  have loop: "retry_loop 100 ''query deadline exceeded: '' env 2 0 None ?r0 =
     (([], Some e1),
      ?r0\<lparr>gatherer := markFailure (gatherer ?r0), attempts := Suc (Suc (attempts ?r0)),
        sleeps := sleeps ?r0 @ [Millisecond * 100]\<rparr>)"
    using assms(2-8) by (intro retry_loop_two_failures[OF m0]) simp_all
  have bound: "attempts (snd (GatherSingle F env' elapsed eg)) \<le> 2" for env' :: "'s retry_env"
    using retry_loop_attempts_le[of 100 "''query deadline exceeded: ''" env' 2 0 None ?r0]
    by (simp add: GatherSingle_unfold Let_def)
  show ?thesis
    using bound by (simp add: GatherSingle_unfold loop GetMetrics_mark(1)[OF assms(1)])
qed

theorem GatherSingle_two_attempts_then_failure_witness:
  "metrics (NewEnhancedGatherer ''prom'') =
      Some \<lparr>queriesTotal = 0, queriesSuccessful = 0, queriesFailed = 0, queriesTimeout = 0,
            averageExecTime = 0\<rparr>
   \<and> \<not> isContextError (Some (ErrorString ''connection refused''))
   \<and> fst (GatherSingle \<lparr>fl = (\<lambda>x. x), ovf = (\<lambda>x. 0)\<rparr>
        (\<lparr>ctxErr = (\<lambda>k. None),
          queryFunc = (\<lambda>k. ([], Some (ErrorString ''connection refused''))),
          ctxDone = (\<lambda>k. None)\<rparr> :: nat retry_env) 0 (NewEnhancedGatherer ''prom''))
       = ([], Some (ErrorString ''connection refused''))
   \<and> GetMetrics (gatherer (snd (GatherSingle \<lparr>fl = (\<lambda>x. x), ovf = (\<lambda>x. 0)\<rparr>
        (\<lparr>ctxErr = (\<lambda>k. None),
          queryFunc = (\<lambda>k. ([], Some (ErrorString ''connection refused''))),
          ctxDone = (\<lambda>k. None)\<rparr> :: nat retry_env) 0 (NewEnhancedGatherer ''prom''))))
       = \<lparr>TotalQueries = 1, SuccessfulQueries = 0, FailedQueries = 1, TimeoutQueries = 0\<rparr>"
proof -
  let ?env = "\<lparr>ctxErr = (\<lambda>k. None),
          queryFunc = (\<lambda>k. ([], Some (ErrorString ''connection refused''))),
          ctxDone = (\<lambda>k. None)\<rparr> :: nat retry_env"
  have m: "metrics (NewEnhancedGatherer ''prom'') =
      Some \<lparr>queriesTotal = 0, queriesSuccessful = 0, queriesFailed = 0, queriesTimeout = 0,
            averageExecTime = 0\<rparr>"
    by (simp add: NewEnhancedGatherer_def)
  have n: "\<not> isContextError (Some (ErrorString ''connection refused''))"
    by (simp add: isContextError_def)
  show ?thesis
    using m n
      GatherSingle_two_attempts_then_failure[OF m, of ?env "ErrorString ''connection refused''"
        "ErrorString ''connection refused''" "\<lparr>fl = (\<lambda>x. x), ovf = (\<lambda>x. 0)\<rparr>" 0]
    by (simp add: wrap64_def)
qed

text \<open>
  As the claim is written (three attempts, the last error wrapped with the attempt
  count) it fails: with a backend that always answers "connection refused" the call
  makes two attempts and returns that very error.
\<close>

theorem GatherSingle_not_three_attempts_nor_wrapped:
  "\<forall>F elapsed.
     attempts (snd (GatherSingle F
        (\<lparr>ctxErr = (\<lambda>k. None),
          queryFunc = (\<lambda>k. ([], Some (ErrorString ''connection refused''))),
          ctxDone = (\<lambda>k. None)\<rparr> :: nat retry_env) elapsed (NewEnhancedGatherer ''prom''))) = 2
   \<and> snd (fst (GatherSingle F
        (\<lparr>ctxErr = (\<lambda>k. None),
          queryFunc = (\<lambda>k. ([], Some (ErrorString ''connection refused''))),
          ctxDone = (\<lambda>k. None)\<rparr> :: nat retry_env) elapsed (NewEnhancedGatherer ''prom'')))
       = Some (ErrorString ''connection refused'')"
  by (simp add: GatherSingle_unfold retry_loop_unroll Let_def isContextError_def
      NewEnhancedGatherer_def)

text \<open>
  When the backoff is slept in full, every exit of the loop records exactly one outcome.
\<close>

lemma retry_loop_marks_one_outcome:
  assumes "metrics (gatherer r) = Some m" and "ctxDone env 0 = None"
  shows "GetMetrics (gatherer (snd (retry_loop factor dtext env 2 0 le r))) =
           \<lparr>TotalQueries = wrap64 (queriesTotal m + 1), SuccessfulQueries = wrap64 (queriesSuccessful m + 1),
            FailedQueries = queriesFailed m, TimeoutQueries = queriesTimeout m\<rparr>
       \<or> GetMetrics (gatherer (snd (retry_loop factor dtext env 2 0 le r))) =
           \<lparr>TotalQueries = wrap64 (queriesTotal m + 1), SuccessfulQueries = queriesSuccessful m,
            FailedQueries = wrap64 (queriesFailed m + 1), TimeoutQueries = queriesTimeout m\<rparr>
       \<or> GetMetrics (gatherer (snd (retry_loop factor dtext env 2 0 le r))) =
           \<lparr>TotalQueries = wrap64 (queriesTotal m + 1), SuccessfulQueries = queriesSuccessful m,
            FailedQueries = queriesFailed m, TimeoutQueries = wrap64 (queriesTimeout m + 1)\<rparr>"
  using assms
  by (auto simp: retry_loop_unroll Let_def GetMetrics_mark split: option.splits)

text \<open>
  C3. The claim asks that every exit path of the retry loop increments exactly one of
  the three outcome counters. The exit taken when the context ends during the backoff
  increments none: after a first attempt that fails with "connection refused" and a
  cancellation during the backoff, \<open>GatherSingle\<close> and \<open>GatherRange\<close> return the
  context's error and all four counters are still 0.
\<close>

theorem backoff_cancel_records_no_outcome:
  "fst (GatherSingle F
        (\<lparr>ctxErr = (\<lambda>k. None),
          queryFunc = (\<lambda>k. ([], Some (ErrorString ''connection refused''))),
          ctxDone = (\<lambda>k. Some Canceled)\<rparr> :: nat retry_env) elapsed (NewEnhancedGatherer ''prom''))
       = ([], Some Canceled)
   \<and> GetMetrics (gatherer (snd (GatherSingle F
        (\<lparr>ctxErr = (\<lambda>k. None),
          queryFunc = (\<lambda>k. ([], Some (ErrorString ''connection refused''))),
          ctxDone = (\<lambda>k. Some Canceled)\<rparr> :: nat retry_env) elapsed (NewEnhancedGatherer ''prom''))))
       = \<lparr>TotalQueries = 0, SuccessfulQueries = 0, FailedQueries = 0, TimeoutQueries = 0\<rparr>
   \<and> fst (GatherRange F
        (\<lparr>ctxErr = (\<lambda>k. None),
          queryFunc = (\<lambda>k. ([], Some (ErrorString ''connection refused''))),
          ctxDone = (\<lambda>k. Some Canceled)\<rparr> :: nat retry_env) elapsed (NewEnhancedGatherer ''prom'') start end')
       = ([], Some Canceled)
   \<and> GetMetrics (gatherer (snd (GatherRange F
        (\<lparr>ctxErr = (\<lambda>k. None),
          queryFunc = (\<lambda>k. ([], Some (ErrorString ''connection refused''))),
          ctxDone = (\<lambda>k. Some Canceled)\<rparr> :: nat retry_env) elapsed (NewEnhancedGatherer ''prom'') start end')))
       = \<lparr>TotalQueries = 0, SuccessfulQueries = 0, FailedQueries = 0, TimeoutQueries = 0\<rparr>"
  apply (simp add: GatherSingle_unfold GatherRange_unfold retry_loop_unroll Let_def isContextError_def)
  apply (simp add: GetMetrics_def NewEnhancedGatherer_def)
  done

lemma isContextError_Errorf: "isContextError (Some e) \<Longrightarrow> isContextError (Some (Errorf p e))"
  by (auto simp: isContextError_def strings_Contains_append)

lemma retry_loop_context_error_second:
  assumes "metrics (gatherer r) = Some m"
    and "ctxErr env 0 = None" and "snd (queryFunc env 0) = Some e0"
    and "\<not> isContextError (Some e0)" and "ctxDone env 0 = None"
    and "ctxErr env (Suc 0) = None" and "snd (queryFunc env (Suc 0)) = Some e"
    and "isContextError (Some e)"
  shows "retry_loop factor dtext env 2 0 le r =
     (([], Some e),
      r\<lparr>gatherer := markTimeout (gatherer r), attempts := Suc (Suc (attempts r)),
        sleeps := sleeps r @ [Millisecond * factor]\<rparr>)"
  using assms by (simp add: retry_loop_unroll Let_def)

lemma retry_loop_context_error_at:
  assumes m: "metrics eg = Some m"
    and k: "k < 2"
    and live: "\<forall>j \<le> k. ctxErr env j = None"
    and before: "\<forall>j < k. ctxDone env j = None \<and>
                   (\<exists>e'. snd (queryFunc env j) = Some e' \<and> \<not> isContextError (Some e'))"
    and e: "snd (queryFunc env k) = Some e" and c: "isContextError (Some e)"
  shows "fst (retry_loop factor dtext env 2 0 None
                 \<lparr>gatherer = eg, ctx_timeout = t, attempts = 0, sleeps = []\<rparr>) = ([], Some e)"
    and "attempts (snd (retry_loop factor dtext env 2 0 None
                 \<lparr>gatherer = eg, ctx_timeout = t, attempts = 0, sleeps = []\<rparr>)) = Suc k"
    and "gatherer (snd (retry_loop factor dtext env 2 0 None
                 \<lparr>gatherer = eg, ctx_timeout = t, attempts = 0, sleeps = []\<rparr>)) = markTimeout eg"
proof -
  let ?r = "\<lparr>gatherer = eg, ctx_timeout = t, attempts = 0, sleeps = []\<rparr>"
  have mr: "metrics (gatherer ?r) = Some m" using m by simp
  consider (first) "k = 0" | (second) "k = Suc 0" using k by linarith
  then have "fst (retry_loop factor dtext env 2 0 None ?r) = ([], Some e)
     \<and> attempts (snd (retry_loop factor dtext env 2 0 None ?r)) = Suc k
     \<and> gatherer (snd (retry_loop factor dtext env 2 0 None ?r)) = markTimeout eg"
  proof cases
    case first
    then have "ctxErr env 0 = None" "snd (queryFunc env 0) = Some e"
      using live e by simp_all
    then show ?thesis
      using retry_loop_context_error[OF mr _ _ c, of env factor dtext None] first by simp
  next
    case second
    then have l: "ctxErr env 0 = None" "ctxErr env (Suc 0) = None"
      and q: "snd (queryFunc env (Suc 0)) = Some e"
      using live e by simp_all
    from before second obtain e0 where d: "ctxDone env 0 = None"
      and e0: "snd (queryFunc env 0) = Some e0" "\<not> isContextError (Some e0)"
      by auto
    show ?thesis
      using retry_loop_context_error_second[OF mr l(1) e0 d l(2) q c, of factor dtext None] second
      by simp
  qed
  then show "fst (retry_loop factor dtext env 2 0 None ?r) = ([], Some e)"
    and "attempts (snd (retry_loop factor dtext env 2 0 None ?r)) = Suc k"
    and "gatherer (snd (retry_loop factor dtext env 2 0 None ?r)) = markTimeout eg"
    by blast+
qed

text \<open>
  C5 (amended). An error counts as a context error when its text contains "deadline
  exceeded", "canceled" or "timeout": the two errors of the context package are
  classified so, and so is every \<^verbatim>\<open>fmt.Errorf\<close> wrapping of an error classified so.
  When an attempt of a \<open>GatherSingle\<close> or \<open>GatherRange\<close> call returns an error
  classified so, the loop makes no attempt after that one (exactly one attempt when it is
  the first of the call), returns the error as it is, and increments the timeout counter
  and not the failure counter.
\<close>

theorem context_classified_error_not_retried:
  assumes "metrics eg = Some m"
    and "k < 2"
    and "\<forall>j \<le> k. ctxErr env j = None"
    and "\<forall>j < k. ctxDone env j = None \<and>
           (\<exists>e'. snd (queryFunc env j) = Some e' \<and> \<not> isContextError (Some e'))"
    and "snd (queryFunc env k) = Some e" and "isContextError (Some e)"
  shows "fst (GatherSingle F env elapsed eg) = ([], Some e)
     \<and> attempts (snd (GatherSingle F env elapsed eg)) = Suc k
     \<and> GetMetrics (gatherer (snd (GatherSingle F env elapsed eg))) =
         \<lparr>TotalQueries = wrap64 (queriesTotal m + 1), SuccessfulQueries = queriesSuccessful m,
          FailedQueries = queriesFailed m, TimeoutQueries = wrap64 (queriesTimeout m + 1)\<rparr>
     \<and> fst (GatherRange F env elapsed eg start end') = ([], Some e)
     \<and> attempts (snd (GatherRange F env elapsed eg start end')) = Suc k
     \<and> GetMetrics (gatherer (snd (GatherRange F env elapsed eg start end'))) =
         \<lparr>TotalQueries = wrap64 (queriesTotal m + 1), SuccessfulQueries = queriesSuccessful m,
          FailedQueries = queriesFailed m, TimeoutQueries = wrap64 (queriesTimeout m + 1)\<rparr>
     \<and> isContextError (Some DeadlineExceeded)
     \<and> isContextError (Some Canceled)
     \<and> (\<forall>p e'. isContextError (Some e') \<longrightarrow> isContextError (Some (Errorf p e')))"
proof -
  note loop = retry_loop_context_error_at[OF assms]
  have a: "isContextError (Some DeadlineExceeded)" "isContextError (Some Canceled)"
    by (simp_all add: isContextError_def)
  show ?thesis
    using a isContextError_Errorf
    by (simp add: GatherSingle_unfold GatherRange_unfold Let_def loop
        GetMetrics_mark(2)[OF assms(1)])
qed

theorem context_classified_error_not_retried_witness:
  "metrics (NewEnhancedGatherer ''prom'') =
      Some \<lparr>queriesTotal = 0, queriesSuccessful = 0, queriesFailed = 0, queriesTimeout = 0,
            averageExecTime = 0\<rparr>
   \<and> (1::nat) < 2
   \<and> \<not> isContextError (Some (ErrorString ''connection refused''))
   \<and> isContextError (Some DeadlineExceeded)
   \<and> fst (GatherSingle \<lparr>fl = (\<lambda>x. x), ovf = (\<lambda>x. 0)\<rparr>
        (\<lparr>ctxErr = (\<lambda>k. None),
          queryFunc = (\<lambda>k. if k = 0 then ([], Some (ErrorString ''connection refused''))
                           else ([], Some DeadlineExceeded)),
          ctxDone = (\<lambda>k. None)\<rparr> :: nat retry_env) 0 (NewEnhancedGatherer ''prom''))
       = ([], Some DeadlineExceeded)
   \<and> attempts (snd (GatherSingle \<lparr>fl = (\<lambda>x. x), ovf = (\<lambda>x. 0)\<rparr>
        (\<lparr>ctxErr = (\<lambda>k. None),
          queryFunc = (\<lambda>k. if k = 0 then ([], Some (ErrorString ''connection refused''))
                           else ([], Some DeadlineExceeded)),
          ctxDone = (\<lambda>k. None)\<rparr> :: nat retry_env) 0 (NewEnhancedGatherer ''prom''))) = 2
   \<and> GetMetrics (gatherer (snd (GatherSingle \<lparr>fl = (\<lambda>x. x), ovf = (\<lambda>x. 0)\<rparr>
        (\<lparr>ctxErr = (\<lambda>k. None),
          queryFunc = (\<lambda>k. if k = 0 then ([], Some (ErrorString ''connection refused''))
                           else ([], Some DeadlineExceeded)),
          ctxDone = (\<lambda>k. None)\<rparr> :: nat retry_env) 0 (NewEnhancedGatherer ''prom''))))
       = \<lparr>TotalQueries = 1, SuccessfulQueries = 0, FailedQueries = 0, TimeoutQueries = 1\<rparr>
   \<and> fst (GatherRange \<lparr>fl = (\<lambda>x. x), ovf = (\<lambda>x. 0)\<rparr>
        (\<lparr>ctxErr = (\<lambda>k. None), queryFunc = (\<lambda>k. ([], Some Canceled)),
          ctxDone = (\<lambda>k. None)\<rparr> :: nat retry_env) 0 (NewEnhancedGatherer ''prom'') 0 0)
       = ([], Some Canceled)
   \<and> attempts (snd (GatherRange \<lparr>fl = (\<lambda>x. x), ovf = (\<lambda>x. 0)\<rparr>
        (\<lparr>ctxErr = (\<lambda>k. None), queryFunc = (\<lambda>k. ([], Some Canceled)),
          ctxDone = (\<lambda>k. None)\<rparr> :: nat retry_env) 0 (NewEnhancedGatherer ''prom'') 0 0)) = 1
   \<and> GetMetrics (gatherer (snd (GatherRange \<lparr>fl = (\<lambda>x. x), ovf = (\<lambda>x. 0)\<rparr>
        (\<lparr>ctxErr = (\<lambda>k. None), queryFunc = (\<lambda>k. ([], Some Canceled)),
          ctxDone = (\<lambda>k. None)\<rparr> :: nat retry_env) 0 (NewEnhancedGatherer ''prom'') 0 0)))
       = \<lparr>TotalQueries = 1, SuccessfulQueries = 0, FailedQueries = 0, TimeoutQueries = 1\<rparr>
   \<and> isContextError (Some (Errorf ''Post http://prom/api/v1/query: '' DeadlineExceeded))"
proof -
  let ?F = "\<lparr>fl = (\<lambda>x. x), ovf = (\<lambda>x. 0)\<rparr>"
  let ?env2 = "(\<lparr>ctxErr = (\<lambda>k. None),
          queryFunc = (\<lambda>k. if k = 0 then ([], Some (ErrorString ''connection refused''))
                           else ([], Some DeadlineExceeded)),
          ctxDone = (\<lambda>k. None)\<rparr> :: nat retry_env)"
  let ?env1 = "(\<lparr>ctxErr = (\<lambda>k. None), queryFunc = (\<lambda>k. ([], Some Canceled)),
          ctxDone = (\<lambda>k. None)\<rparr> :: nat retry_env)"
  have m: "metrics (NewEnhancedGatherer ''prom'') =
      Some \<lparr>queriesTotal = 0, queriesSuccessful = 0, queriesFailed = 0, queriesTimeout = 0,
            averageExecTime = 0\<rparr>"
    by (simp add: NewEnhancedGatherer_def)
  have n: "\<not> isContextError (Some (ErrorString ''connection refused''))"
    by (simp add: isContextError_def)
  have c: "isContextError (Some DeadlineExceeded)" "isContextError (Some Canceled)"
    by (simp_all add: isContextError_def)
  have k2: "(1::nat) < 2" by simp
  have live2: "\<forall>j \<le> 1. ctxErr ?env2 j = None" by simp
  have before2: "\<forall>j < 1. ctxDone ?env2 j = None \<and>
           (\<exists>e'. snd (queryFunc ?env2 j) = Some e' \<and> \<not> isContextError (Some e'))"
    using n by simp
  have q2: "snd (queryFunc ?env2 1) = Some DeadlineExceeded" by simp
  note t2 = context_classified_error_not_retried[OF m k2 live2 before2 q2 c(1), of ?F 0 0 0]
  have k1: "(0::nat) < 2" by simp
  have live1: "\<forall>j \<le> 0. ctxErr ?env1 j = None" by simp
  have before1: "\<forall>j < 0. ctxDone ?env1 j = None \<and>
           (\<exists>e'. snd (queryFunc ?env1 j) = Some e' \<and> \<not> isContextError (Some e'))"
    by simp
  have q1: "snd (queryFunc ?env1 0) = Some Canceled" by simp
  note t1 = context_classified_error_not_retried[OF m k1 live1 before1 q1 c(2), of ?F 0 0 0]
  have w: "isContextError (Some (Errorf ''Post http://prom/api/v1/query: '' DeadlineExceeded))"
    using t2 c(1) by blast
  have a2: "fst (GatherSingle ?F ?env2 0 (NewEnhancedGatherer ''prom'')) = ([], Some DeadlineExceeded)"
    "attempts (snd (GatherSingle ?F ?env2 0 (NewEnhancedGatherer ''prom''))) = 2"
    "GetMetrics (gatherer (snd (GatherSingle ?F ?env2 0 (NewEnhancedGatherer ''prom''))))
       = \<lparr>TotalQueries = 1, SuccessfulQueries = 0, FailedQueries = 0, TimeoutQueries = 1\<rparr>"
    using t2 by (simp_all add: wrap64_def)
  have a1: "fst (GatherRange ?F ?env1 0 (NewEnhancedGatherer ''prom'') 0 0) = ([], Some Canceled)"
    "attempts (snd (GatherRange ?F ?env1 0 (NewEnhancedGatherer ''prom'') 0 0)) = 1"
    "GetMetrics (gatherer (snd (GatherRange ?F ?env1 0 (NewEnhancedGatherer ''prom'') 0 0)))
       = \<lparr>TotalQueries = 1, SuccessfulQueries = 0, FailedQueries = 0, TimeoutQueries = 1\<rparr>"
    using t1 by (simp_all add: wrap64_def)
  show ?thesis using m k2 n c(1) a2 a1 w by (intro conjI)
qed

text \<open>
  As the claim is written it fails. The backend error "request timeout" carries no
  signal of a context, yet it is classified as a context error, is not retried, and
  counts as a timeout. An error that wraps the deadline error of a context behind a text
  of its own is a context error for \<^verbatim>\<open>errors.Is\<close>, yet it is not classified as
  one. And when the context error comes from the second attempt, the call has made two
  attempts, not one.
\<close>

theorem context_classification_is_by_text:
  "isContextError (Some (ErrorString ''request timeout''))
   \<and> \<not> spec_context_error (ErrorString ''request timeout'')
   \<and> (\<forall>F elapsed.
        attempts (snd (GatherSingle F
          (\<lparr>ctxErr = (\<lambda>k. None), queryFunc = (\<lambda>k. ([], Some (ErrorString ''request timeout''))),
            ctxDone = (\<lambda>k. None)\<rparr> :: nat retry_env) elapsed (NewEnhancedGatherer ''prom''))) = 1
      \<and> GetMetrics (gatherer (snd (GatherSingle F
          (\<lparr>ctxErr = (\<lambda>k. None), queryFunc = (\<lambda>k. ([], Some (ErrorString ''request timeout''))),
            ctxDone = (\<lambda>k. None)\<rparr> :: nat retry_env) elapsed (NewEnhancedGatherer ''prom''))))
         = \<lparr>TotalQueries = 1, SuccessfulQueries = 0, FailedQueries = 0, TimeoutQueries = 1\<rparr>)
   \<and> spec_context_error (Wrapping ''backend unavailable'' DeadlineExceeded)
   \<and> \<not> isContextError (Some (Wrapping ''backend unavailable'' DeadlineExceeded))
   \<and> (\<forall>F elapsed.
        attempts (snd (GatherSingle F
          (\<lparr>ctxErr = (\<lambda>k. None),
          queryFunc = (\<lambda>k. if k = 0 then ([], Some (ErrorString ''connection refused''))
                           else ([], Some DeadlineExceeded)),
          ctxDone = (\<lambda>k. None)\<rparr> :: nat retry_env) elapsed (NewEnhancedGatherer ''prom''))) = 2)"
proof -
  have c: "isContextError (Some (ErrorString ''request timeout''))"
    by (simp add: isContextError_def)
  have n: "\<not> spec_context_error (ErrorString ''request timeout'')"
    by (simp add: spec_context_error_def)
  have a: "\<forall>F elapsed.
        attempts (snd (GatherSingle F
          (\<lparr>ctxErr = (\<lambda>k. None), queryFunc = (\<lambda>k. ([], Some (ErrorString ''request timeout''))),
            ctxDone = (\<lambda>k. None)\<rparr> :: nat retry_env) elapsed (NewEnhancedGatherer ''prom''))) = 1
      \<and> GetMetrics (gatherer (snd (GatherSingle F
          (\<lparr>ctxErr = (\<lambda>k. None), queryFunc = (\<lambda>k. ([], Some (ErrorString ''request timeout''))),
            ctxDone = (\<lambda>k. None)\<rparr> :: nat retry_env) elapsed (NewEnhancedGatherer ''prom''))))
         = \<lparr>TotalQueries = 1, SuccessfulQueries = 0, FailedQueries = 0, TimeoutQueries = 1\<rparr>"
    using c
    apply (simp add: GatherSingle_unfold retry_loop_unroll Let_def)
    apply (simp add: GetMetrics_def NewEnhancedGatherer_def markTimeout_def wrap64_def)
    done
  have w: "spec_context_error (Wrapping ''backend unavailable'' DeadlineExceeded)"
    by (simp add: spec_context_error_def)
  have u: "\<not> isContextError (Some (Wrapping ''backend unavailable'' DeadlineExceeded))"
    by (simp add: isContextError_def)
  have b: "\<forall>F elapsed.
        attempts (snd (GatherSingle F
          (\<lparr>ctxErr = (\<lambda>k. None),
          queryFunc = (\<lambda>k. if k = 0 then ([], Some (ErrorString ''connection refused''))
                           else ([], Some DeadlineExceeded)),
          ctxDone = (\<lambda>k. None)\<rparr> :: nat retry_env) elapsed (NewEnhancedGatherer ''prom''))) = 2"
    by (simp add: GatherSingle_unfold retry_loop_unroll Let_def isContextError_def
        NewEnhancedGatherer_def)
  show ?thesis using c n a w u b by (intro conjI)
qed

section \<open>The datasource router: the properties\<close>

lemma find_snoc:
  "find P (xs @ [x]) = (case find P xs of None \<Rightarrow> (if P x then Some x else None) | Some y \<Rightarrow> Some y)"
  by (induction xs) auto

lemma find_SomeD: "find P xs = Some x \<Longrightarrow> x \<in> set xs \<and> P x"
  by (induction xs) (auto split: if_splits)

lemma createGatherer_dsID: "createGatherer c ds i = createGatherer c ds j"
  by (simp add: createGatherer_def)

lemma createAll_lookup:
  "createAll c dss acc = Inr ags \<Longrightarrow>
   map_of ags i =
     (case find (\<lambda>ds. ID ds = i) (rev dss) of
        None \<Rightarrow> map_of acc i
      | Some ds \<Rightarrow> (case createGatherer c ds i of Inl err \<Rightarrow> None | Inr g \<Rightarrow> Some g))"
proof (induction dss arbitrary: acc)
  case Nil
  then show ?case by simp
next
  case (Cons ds dss)
  from Cons.prems obtain g where g: "createGatherer c ds (ID ds) = Inr g"
    and rest: "createAll c dss (AList.update (ID ds) g acc) = Inr ags"
    by (auto split: sum.splits)
  have g': "createGatherer c ds i = Inr g" using g createGatherer_dsID by metis
  show ?case
    using Cons.IH[OF rest] g'
    by (auto simp: find_snoc update_conv' split: option.splits)
qed

lemma createAll_created:
  "createAll c dss acc = Inr ags \<Longrightarrow> ds \<in> set dss \<Longrightarrow> \<exists>g. createGatherer c ds i = Inr g"
proof (induction dss arbitrary: acc)
  case Nil
  then show ?case by simp
next
  case (Cons d dss)
  from Cons.prems(1) obtain g where g: "createGatherer c d (ID d) = Inr g"
    and rest: "createAll c dss (AList.update (ID d) g acc) = Inr ags"
    by (auto split: sum.splits)
  show ?case
  proof (cases "ds = d")
    case True
    then show ?thesis using g createGatherer_dsID by metis
  next
    case False
    then show ?thesis using Cons.IH[OF rest] Cons.prems(2) by simp
  qed
qed

lemma createAll_user_gatherer:
  "createAll c (UserDatasources c) [] = Inr ags \<Longrightarrow> map_of ags i = user_gatherer c i"
  by (simp add: createAll_lookup user_gatherer_def split: option.splits)

lemma createAll_known:
  assumes "createAll c dss [] = Inr ags" and "i \<in> ID ` set dss"
  shows "\<exists>g. map_of ags i = Some g"
proof -
  from assms(2) have "\<exists>x. x \<in> set (rev dss) \<and> ID x = i" by auto
  then obtain ds where f: "find (\<lambda>ds. ID ds = i) (rev dss) = Some ds"
    using find_None_iff[of "\<lambda>ds. ID ds = i" "rev dss"] by (cases "find (\<lambda>ds. ID ds = i) (rev dss)") auto
  then have "ds \<in> set dss" using find_SomeD by fastforce
  then obtain g where "createGatherer c ds i = Inr g"
    using createAll_created[OF assms(1)] by blast
  then show ?thesis using createAll_lookup[OF assms(1), of i] f by simp
qed

lemma createAll_unknown:
  assumes "createAll c dss [] = Inr ags" and "i \<notin> ID ` set dss"
  shows "map_of ags i = None"
proof -
  from assms(2) have "find (\<lambda>ds. ID ds = i) (rev dss) = None"
    by (auto simp: find_None_iff)
  then show ?thesis using createAll_lookup[OF assms(1), of i] by simp
qed

lemma useUserDatasources_lookup:
  "map_of (useUserDatasources ids ags gs) i =
     (if i \<in> set ids then (case map_of ags i of Some g \<Rightarrow> Some g | None \<Rightarrow> map_of gs i)
      else map_of gs i)"
  by (induction ids arbitrary: gs) (auto simp: update_conv' split: option.splits)

lemma applyAliases_lookup:
  "applyAliases al ags gs = Inr gs' \<Longrightarrow> distinct (map fst al) \<Longrightarrow>
   map_of gs' i = (case map_of al i of Some alias \<Rightarrow> map_of ags alias | None \<Rightarrow> map_of gs i)"
proof (induction al arbitrary: gs)
  case Nil
  then show ?case by simp
next
  case (Cons p al)
  obtain i0 a0 where p: "p = (i0, a0)" by (cases p)
  from Cons.prems(1) p obtain ag where ag: "map_of ags a0 = Some ag"
    and rest: "applyAliases al ags (AList.update i0 ag gs) = Inr gs'"
    by (auto split: option.splits)
  have d: "distinct (map fst al)" and n: "i0 \<notin> fst ` set al"
    using Cons.prems(2) p by auto
  have none: "map_of al i0 = None" using n by (simp add: map_of_eq_None_iff)
  show ?case
    using Cons.IH[OF rest d] p ag none
    by (auto simp: update_conv' split: option.splits)
qed

lemma applyAliases_targets:
  "applyAliases al ags gs = Inr gs' \<Longrightarrow> (i, alias) \<in> set al \<Longrightarrow> \<exists>ag. map_of ags alias = Some ag"
proof (induction al arbitrary: gs)
  case Nil
  then show ?case by simp
next
  case (Cons p al)
  obtain i0 a0 where p: "p = (i0, a0)" by (cases p)
  from Cons.prems(1) p obtain ag where ag: "map_of ags a0 = Some ag"
    and rest: "applyAliases al ags (AList.update i0 ag gs) = Inr gs'"
    by (auto split: option.splits)
  show ?case
  proof (cases "(i, alias) = p")
    case True
    then show ?thesis using p ag by simp
  next
    case False
    then show ?thesis using Cons.IH[OF rest] Cons.prems(2) by simp
  qed
qed

lemma applyAliases_missing_target:
  "(i, alias) \<in> set al \<Longrightarrow> map_of ags alias = None \<Longrightarrow> \<exists>err. applyAliases al ags gs = Inl err"
proof (induction al arbitrary: gs)
  case Nil
  then show ?case by simp
next
  case (Cons p al)
  obtain i0 a0 where p: "p = (i0, a0)" by (cases p)
  show ?case
  proof (cases "map_of ags a0")
    case None
    then show ?thesis using p by simp
  next
    case (Some ag)
    then have "(i, alias) \<in> set al" using Cons.prems p by auto
    then show ?thesis using Cons.IH Cons.prems(2) p Some by simp
  qed
qed


lemma NewGatherer_InrD:
  assumes "NewGatherer c = Inr r"
  obtains gs ags where "createAll c (DashboardDatasources c) [] = Inr gs"
    and "createAll c (UserDatasources c) [] = Inr ags"
    and "applyAliases (Aliases c) ags (useUserDatasources (map fst gs) ags gs) = Inr (gatherers r)"
  using assms unfolding NewGatherer_def by (auto split: sum.splits)

lemma router_Gather_found: "metricGatherer r i = Inr g \<Longrightarrow> router_Gather call r i = call g"
  by (simp add: router_Gather_def)

text \<open>
  C4. Let the aliases be a map (one entry per dashboard ID). If \<open>NewGatherer\<close> returns
  a router, then for every alias entry from a dashboard ID to a user ID the router
  resolves the dashboard ID to the gatherer of that user datasource, and sends the query
  there; and every ID that is both a dashboard and a user datasource, and is not aliased,
  resolves to the user datasource's gatherer. If some alias names a user ID that no user
  datasource has, \<open>NewGatherer\<close> returns an error and no router: the failure is at
  construction, and after a successful construction no aliased ID fails to resolve.
\<close>

theorem NewGatherer_override_priority:
  assumes "distinct (map fst (Aliases c))"
  shows "(NewGatherer c = Inr r \<longrightarrow>
            (\<forall>(i, alias) \<in> set (Aliases c).
               \<exists>ag. user_gatherer c alias = Some ag \<and> metricGatherer r i = Inr ag
                    \<and> router_Gather call r i = call ag)
          \<and> (\<forall>i. i \<in> ID ` set (DashboardDatasources c) \<and> i \<in> ID ` set (UserDatasources c)
                  \<and> i \<notin> fst ` set (Aliases c) \<longrightarrow>
               (\<exists>g. user_gatherer c i = Some g \<and> metricGatherer r i = Inr g
                    \<and> router_Gather call r i = call g)))
     \<and> ((\<exists>(i, alias) \<in> set (Aliases c). alias \<notin> ID ` set (UserDatasources c)) \<longrightarrow>
            (\<exists>err. NewGatherer c = Inl err))"
proof (intro conjI impI)
  assume ok: "NewGatherer c = Inr r"
  then obtain gs ags where gs: "createAll c (DashboardDatasources c) [] = Inr gs"
    and ags: "createAll c (UserDatasources c) [] = Inr ags"
    and al: "applyAliases (Aliases c) ags (useUserDatasources (map fst gs) ags gs) = Inr (gatherers r)"
    by (rule NewGatherer_InrD)
  note look = applyAliases_lookup[OF al assms]
  show "\<forall>(i, alias) \<in> set (Aliases c).
          \<exists>ag. user_gatherer c alias = Some ag \<and> metricGatherer r i = Inr ag
               \<and> router_Gather call r i = call ag"
  proof (clarify)
    fix i tgt
    assume m: "(i, tgt) \<in> set (Aliases c)"
    then obtain ag where ag: "map_of ags tgt = Some ag"
      using applyAliases_targets[OF al] by blast
    have "map_of (Aliases c) i = Some tgt" using m assms by simp
    then have "map_of (gatherers r) i = Some ag" using look[of i] ag by simp
    then have mg: "metricGatherer r i = Inr ag" by (simp add: metricGatherer_def)
    have "user_gatherer c tgt = Some ag" using createAll_user_gatherer[OF ags] ag by metis
    then show "\<exists>ag. user_gatherer c tgt = Some ag \<and> metricGatherer r i = Inr ag
               \<and> router_Gather call r i = call ag"
      using mg router_Gather_found[OF mg] by blast
  qed
  show "\<forall>i. i \<in> ID ` set (DashboardDatasources c) \<and> i \<in> ID ` set (UserDatasources c)
                  \<and> i \<notin> fst ` set (Aliases c) \<longrightarrow>
               (\<exists>g. user_gatherer c i = Some g \<and> metricGatherer r i = Inr g
                    \<and> router_Gather call r i = call g)"
  proof (intro allI impI)
    fix i
    assume h: "i \<in> ID ` set (DashboardDatasources c) \<and> i \<in> ID ` set (UserDatasources c)
                  \<and> i \<notin> fst ` set (Aliases c)"
    obtain g0 where g0: "map_of gs i = Some g0" using createAll_known[OF gs] h by blast
    obtain g where g: "map_of ags i = Some g" using createAll_known[OF ags] h by blast
    have "i \<in> set (map fst gs)" using g0 by (metis map_of_eq_None_iff option.distinct(1) set_map)
    then have "map_of (useUserDatasources (map fst gs) ags gs) i = Some g"
      using g by (simp add: useUserDatasources_lookup)
    moreover have "map_of (Aliases c) i = None" using h by (simp add: map_of_eq_None_iff)
    ultimately have "map_of (gatherers r) i = Some g" using look[of i] by simp
    then have mg: "metricGatherer r i = Inr g" by (simp add: metricGatherer_def)
    have "user_gatherer c i = Some g" using createAll_user_gatherer[OF ags] g by metis
    then show "\<exists>g. user_gatherer c i = Some g \<and> metricGatherer r i = Inr g
                    \<and> router_Gather call r i = call g"
      using mg router_Gather_found[OF mg] by blast
  qed
next
  assume "\<exists>(i, alias) \<in> set (Aliases c). alias \<notin> ID ` set (UserDatasources c)"
  then obtain i tgt where m: "(i, tgt) \<in> set (Aliases c)"
    and n: "tgt \<notin> ID ` set (UserDatasources c)" by blast
  show "\<exists>err. NewGatherer c = Inl err"
  proof (cases "createAll c (DashboardDatasources c) []")
    case (Inl e)
    then show ?thesis by (simp add: NewGatherer_def)
  next
    case gs: (Inr gs)
    show ?thesis
    proof (cases "createAll c (UserDatasources c) []")
      case (Inl e)
      then show ?thesis using gs by (simp add: NewGatherer_def)
    next
      case ags: (Inr ags)
      have "map_of ags tgt = None" using createAll_unknown[OF ags n] .
      then obtain err where
        "applyAliases (Aliases c) ags (useUserDatasources (map fst gs) ags gs) = Inl err"
        using applyAliases_missing_target[OF m] by blast
      then show ?thesis using gs ags by (simp add: NewGatherer_def)
    qed
  qed
qed


theorem NewGatherer_override_priority_witness:
  "distinct (map fst (Aliases
      (\<lparr>DashboardDatasources = [\<lparr>ID = ''prometheus'', Prometheus = Some ''dash'', Graphite = None, InfluxDB = None, Fake = None\<rparr>,
         \<lparr>ID = ''prom2'', Prometheus = Some ''dash2'', Graphite = None, InfluxDB = None, Fake = None\<rparr>],
       UserDatasources = [\<lparr>ID = ''prometheus'', Prometheus = Some ''user'', Graphite = None, InfluxDB = None, Fake = None\<rparr>,
         \<lparr>ID = ''localprom'', Prometheus = Some ''local'', Graphite = None, InfluxDB = None, Fake = None\<rparr>],
       Aliases = [(''prom2'', ''localprom'')],
       CreateFakeFunc = Inr, CreatePrometheusFunc = Inr, CreateGraphiteFunc = Inr,
       CreateInfluxDBFunc = Inr\<rparr>)))
   \<and> (\<exists>r. NewGatherer
      (\<lparr>DashboardDatasources = [\<lparr>ID = ''prometheus'', Prometheus = Some ''dash'', Graphite = None, InfluxDB = None, Fake = None\<rparr>,
         \<lparr>ID = ''prom2'', Prometheus = Some ''dash2'', Graphite = None, InfluxDB = None, Fake = None\<rparr>],
       UserDatasources = [\<lparr>ID = ''prometheus'', Prometheus = Some ''user'', Graphite = None, InfluxDB = None, Fake = None\<rparr>,
         \<lparr>ID = ''localprom'', Prometheus = Some ''local'', Graphite = None, InfluxDB = None, Fake = None\<rparr>],
       Aliases = [(''prom2'', ''localprom'')],
       CreateFakeFunc = Inr, CreatePrometheusFunc = Inr, CreateGraphiteFunc = Inr,
       CreateInfluxDBFunc = Inr\<rparr>) = Inr r
      \<and> metricGatherer r ''prometheus'' = Inr ''user''
      \<and> metricGatherer r ''prom2'' = Inr ''local'')
   \<and> (\<exists>err. NewGatherer
      (\<lparr>DashboardDatasources = [\<lparr>ID = ''prometheus'', Prometheus = Some ''dash'', Graphite = None, InfluxDB = None, Fake = None\<rparr>,
         \<lparr>ID = ''prom2'', Prometheus = Some ''dash2'', Graphite = None, InfluxDB = None, Fake = None\<rparr>],
       UserDatasources = [\<lparr>ID = ''prometheus'', Prometheus = Some ''user'', Graphite = None, InfluxDB = None, Fake = None\<rparr>,
         \<lparr>ID = ''localprom'', Prometheus = Some ''local'', Graphite = None, InfluxDB = None, Fake = None\<rparr>],
       Aliases = [(''prom2'', ''missing'')],
       CreateFakeFunc = Inr, CreatePrometheusFunc = Inr, CreateGraphiteFunc = Inr,
       CreateInfluxDBFunc = Inr\<rparr>) = Inl err)"
proof -
  let ?c0 = "\<lparr>DashboardDatasources = [\<lparr>ID = ''prometheus'', Prometheus = Some ''dash'', Graphite = None, InfluxDB = None, Fake = None\<rparr>,
         \<lparr>ID = ''prom2'', Prometheus = Some ''dash2'', Graphite = None, InfluxDB = None, Fake = None\<rparr>],
       UserDatasources = [\<lparr>ID = ''prometheus'', Prometheus = Some ''user'', Graphite = None, InfluxDB = None, Fake = None\<rparr>,
         \<lparr>ID = ''localprom'', Prometheus = Some ''local'', Graphite = None, InfluxDB = None, Fake = None\<rparr>],
       Aliases = [(''prom2'', ''localprom'')],
       CreateFakeFunc = Inr, CreatePrometheusFunc = Inr, CreateGraphiteFunc = Inr,
       CreateInfluxDBFunc = Inr\<rparr>"
  let ?c1 = "\<lparr>DashboardDatasources = [\<lparr>ID = ''prometheus'', Prometheus = Some ''dash'', Graphite = None, InfluxDB = None, Fake = None\<rparr>,
         \<lparr>ID = ''prom2'', Prometheus = Some ''dash2'', Graphite = None, InfluxDB = None, Fake = None\<rparr>],
       UserDatasources = [\<lparr>ID = ''prometheus'', Prometheus = Some ''user'', Graphite = None, InfluxDB = None, Fake = None\<rparr>,
         \<lparr>ID = ''localprom'', Prometheus = Some ''local'', Graphite = None, InfluxDB = None, Fake = None\<rparr>],
       Aliases = [(''prom2'', ''missing'')],
       CreateFakeFunc = Inr, CreatePrometheusFunc = Inr, CreateGraphiteFunc = Inr,
       CreateInfluxDBFunc = Inr\<rparr>"
  let ?r0 = "\<lparr>cfg = ?c0, gatherers = [(''prometheus'', ''user''), (''prom2'', ''local'')]\<rparr>"
  have d0: "distinct (map fst (Aliases ?c0))" by simp
  have d1: "distinct (map fst (Aliases ?c1))" by simp
  have n0: "NewGatherer ?c0 = Inr ?r0"
    by (simp add: NewGatherer_def createGatherer_def)
  note t0 = NewGatherer_override_priority[OF d0, of ?r0 "\<lambda>g. ([] :: nat list, None)",
      THEN conjunct1, THEN mp, OF n0]
  have u1: "user_gatherer ?c0 ''localprom'' = Some ''local''"
    by (simp add: user_gatherer_def createGatherer_def)
  have u2: "user_gatherer ?c0 ''prometheus'' = Some ''user''"
    by (simp add: user_gatherer_def createGatherer_def)
  have "\<exists>ag. user_gatherer ?c0 ''localprom'' = Some ag \<and> metricGatherer ?r0 ''prom2'' = Inr ag"
    using t0[THEN conjunct1, THEN bspec, of "(''prom2'', ''localprom'')"] by auto
  then have a: "metricGatherer ?r0 ''prom2'' = Inr ''local''"
    unfolding u1 by simp
  have "\<exists>g. user_gatherer ?c0 ''prometheus'' = Some g \<and> metricGatherer ?r0 ''prometheus'' = Inr g"
    using t0[THEN conjunct2, THEN spec, of "''prometheus''"] by auto
  then have b: "metricGatherer ?r0 ''prometheus'' = Inr ''user''"
    unfolding u2 by simp
  have c: "\<exists>err. NewGatherer ?c1 = Inl err"
    using NewGatherer_override_priority[OF d1, THEN conjunct2] by simp
  have e: "\<exists>r. NewGatherer ?c0 = Inr r \<and> metricGatherer r ''prometheus'' = Inr ''user''
      \<and> metricGatherer r ''prom2'' = Inr ''local''"
    using n0 a b by (intro exI[of _ ?r0] conjI)
  show ?thesis using d0 e c by (intro conjI)
qed

section \<open>The query executor: the properties\<close>

lemma Get_miss:
  assumes "\<not> snd (fst (Get sha256hex mc key now))"
  shows "hits (snd (Get sha256hex mc key now)) = hits mc"
    and "misses (snd (Get sha256hex mc key now)) = wrap64 (misses mc + 1)"
    and "map_of (entries (snd (Get sha256hex mc key now))) k = Some v \<Longrightarrow> map_of (entries mc) k = Some v"
    and "fst (fst (Get sha256hex mc key now)) = []"
  using assms
  by (auto simp: Get_def Let_def delete_conv' split: option.splits if_splits)

lemma ExecuteQuery_error_no_hit:
  assumes "snd (fst (ExecuteQuery sha256hex z env qe gid q t)) \<noteq> None"
  shows "\<not> snd (fst (Get sha256hex (cache qe) (NewCacheKey gid (Expr q) \<lparr>Start = t, End = t, Range = z\<rparr>) (now_Get env)))"
  using assms by (auto simp: ExecuteQuery_def Let_def)

lemma ExecuteQuery_error_cache:
  assumes "snd (fst (ExecuteQuery sha256hex z env qe gid q t)) \<noteq> None"
  shows "cache (snd (ExecuteQuery sha256hex z env qe gid q t)) =
         snd (Get sha256hex (cache qe) (NewCacheKey gid (Expr q) \<lparr>Start = t, End = t, Range = z\<rparr>) (now_Get env))"
  using assms by (auto simp: ExecuteQuery_def Let_def split: option.splits if_splits)

lemma ExecuteQuery_error_metrics:
  assumes "snd (fst (ExecuteQuery sha256hex z env qe gid q t)) \<noteq> None"
  shows "successes (qe_metrics (snd (ExecuteQuery sha256hex z env qe gid q t))) = successes (qe_metrics qe)"
    and "cacheHits (qe_metrics (snd (ExecuteQuery sha256hex z env qe gid q t))) = cacheHits (qe_metrics qe)"
    and "semaphore env = None \<Longrightarrow>
         errors (qe_metrics (snd (ExecuteQuery sha256hex z env qe gid q t))) = wrap64 (errors (qe_metrics qe) + 1)
         \<and> totalQueries (qe_metrics (snd (ExecuteQuery sha256hex z env qe gid q t))) = wrap64 (totalQueries (qe_metrics qe) + 1)"
  using assms by (auto simp: ExecuteQuery_def Let_def RecordError_def split: option.splits if_splits)

lemmas qe_retry_loop_unroll =
  qe_retry_loop.simps[of _ 0] qe_retry_loop.simps[of _ "Suc 0"]
  qe_retry_loop.simps[of _ "Suc (Suc 0)"] qe_retry_loop.simps[of _ "Suc (Suc (Suc 0))"]

lemma qe_executeWithRetry_exhausted:
  "qe_executeWithRetry
     \<lparr>now_Get = n, semaphore = s, loop_ctxErr = (\<lambda>k. None), backoff_ctxDone = (\<lambda>k. None),
      gather = (\<lambda>k. ([], Some (ErrorString ''connection refused''))),
      after_ctxErr = (\<lambda>k. None), now_Set = ns\<rparr>
   = ([], Some (Errorf ''query failed after 3 attempts: '' (ErrorString ''connection refused'')))"
  by (simp add: qe_executeWithRetry_def qe_retry_loop_unroll MaxRetransmission_def Let_def
      metric_isContextError_def)

text \<open>
  C9 (amended). A call of \<open>ExecuteQuery\<close> that returns an error does not invoke
  \<open>Set\<close>: the cache after the call is the cache that the initial \<open>Get\<close> leaves,
  which counts one more miss and has deleted the entry of the query's key if that entry
  had expired; no entry is added or replaced. No success outcome is recorded, and when
  the error comes from the retry loop (the semaphore was acquired) one error outcome is
  recorded.
\<close>

theorem ExecuteQuery_error_leaves_entries:
  assumes "snd (fst (ExecuteQuery sha256hex z env qe gid q t)) \<noteq> None"
  shows "cache (snd (ExecuteQuery sha256hex z env qe gid q t)) =
           snd (Get sha256hex (cache qe)
                  (NewCacheKey gid (Expr q) \<lparr>Start = t, End = t, Range = z\<rparr>) (now_Get env))
     \<and> (\<forall>k v. map_of (entries (cache (snd (ExecuteQuery sha256hex z env qe gid q t)))) k = Some v \<longrightarrow>
               map_of (entries (cache qe)) k = Some v)
     \<and> hits (cache (snd (ExecuteQuery sha256hex z env qe gid q t))) = hits (cache qe)
     \<and> misses (cache (snd (ExecuteQuery sha256hex z env qe gid q t))) = wrap64 (misses (cache qe) + 1)
     \<and> successes (qe_metrics (snd (ExecuteQuery sha256hex z env qe gid q t))) = successes (qe_metrics qe)
     \<and> (semaphore env = None \<longrightarrow>
          errors (qe_metrics (snd (ExecuteQuery sha256hex z env qe gid q t))) =
            wrap64 (errors (qe_metrics qe) + 1)
          \<and> totalQueries (qe_metrics (snd (ExecuteQuery sha256hex z env qe gid q t))) =
            wrap64 (totalQueries (qe_metrics qe) + 1))"
proof -
  note miss = ExecuteQuery_error_no_hit[OF assms]
  note c = ExecuteQuery_error_cache[OF assms]
  show ?thesis
    unfolding c
    using Get_miss[OF miss] ExecuteQuery_error_metrics[OF assms]
    by (intro conjI allI impI) auto
qed

theorem ExecuteQuery_error_leaves_entries_witness:
  "\<forall>sha256hex.
     snd (fst (ExecuteQuery sha256hex ()
        \<lparr>now_Get = 5, semaphore = None, loop_ctxErr = (\<lambda>k. None), backoff_ctxDone = (\<lambda>k. None),
          gather = (\<lambda>k. ([], Some (ErrorString ''connection refused''))),
          after_ctxErr = (\<lambda>k. None), now_Set = (5, 5, 5)\<rparr>
        (NewQueryExecutor (NewMetricCache 100 (30 * Second)) :: nat QueryExecutor)
        ''prom'' \<lparr>Expr = ''up'', query_DatasourceID = ''prom''\<rparr> 5))
       = Some (Errorf ''query failed after 3 attempts: '' (ErrorString ''connection refused''))
   \<and> snd (fst (ExecuteQuery sha256hex ()
        \<lparr>now_Get = 5, semaphore = None, loop_ctxErr = (\<lambda>k. None), backoff_ctxDone = (\<lambda>k. None),
          gather = (\<lambda>k. ([], Some (ErrorString ''connection refused''))),
          after_ctxErr = (\<lambda>k. None), now_Set = (5, 5, 5)\<rparr>
        (NewQueryExecutor (NewMetricCache 100 (30 * Second)) :: nat QueryExecutor)
        ''prom'' \<lparr>Expr = ''up'', query_DatasourceID = ''prom''\<rparr> 5)) \<noteq> None
   \<and> entries (cache (snd (ExecuteQuery sha256hex ()
        \<lparr>now_Get = 5, semaphore = None, loop_ctxErr = (\<lambda>k. None), backoff_ctxDone = (\<lambda>k. None),
          gather = (\<lambda>k. ([], Some (ErrorString ''connection refused''))),
          after_ctxErr = (\<lambda>k. None), now_Set = (5, 5, 5)\<rparr>
        (NewQueryExecutor (NewMetricCache 100 (30 * Second)) :: nat QueryExecutor)
        ''prom'' \<lparr>Expr = ''up'', query_DatasourceID = ''prom''\<rparr> 5))) = []
   \<and> misses (cache (snd (ExecuteQuery sha256hex ()
        \<lparr>now_Get = 5, semaphore = None, loop_ctxErr = (\<lambda>k. None), backoff_ctxDone = (\<lambda>k. None),
          gather = (\<lambda>k. ([], Some (ErrorString ''connection refused''))),
          after_ctxErr = (\<lambda>k. None), now_Set = (5, 5, 5)\<rparr>
        (NewQueryExecutor (NewMetricCache 100 (30 * Second)) :: nat QueryExecutor)
        ''prom'' \<lparr>Expr = ''up'', query_DatasourceID = ''prom''\<rparr> 5))) = 1
   \<and> errors (qe_metrics (snd (ExecuteQuery sha256hex ()
        \<lparr>now_Get = 5, semaphore = None, loop_ctxErr = (\<lambda>k. None), backoff_ctxDone = (\<lambda>k. None),
          gather = (\<lambda>k. ([], Some (ErrorString ''connection refused''))),
          after_ctxErr = (\<lambda>k. None), now_Set = (5, 5, 5)\<rparr>
        (NewQueryExecutor (NewMetricCache 100 (30 * Second)) :: nat QueryExecutor)
        ''prom'' \<lparr>Expr = ''up'', query_DatasourceID = ''prom''\<rparr> 5))) = 1
   \<and> successes (qe_metrics (snd (ExecuteQuery sha256hex ()
        \<lparr>now_Get = 5, semaphore = None, loop_ctxErr = (\<lambda>k. None), backoff_ctxDone = (\<lambda>k. None),
          gather = (\<lambda>k. ([], Some (ErrorString ''connection refused''))),
          after_ctxErr = (\<lambda>k. None), now_Set = (5, 5, 5)\<rparr>
        (NewQueryExecutor (NewMetricCache 100 (30 * Second)) :: nat QueryExecutor)
        ''prom'' \<lparr>Expr = ''up'', query_DatasourceID = ''prom''\<rparr> 5))) = 0"
proof
  fix sha256hex :: "string \<Rightarrow> string"
  let ?env = "\<lparr>now_Get = 5, semaphore = None, loop_ctxErr = (\<lambda>k. None), backoff_ctxDone = (\<lambda>k. None),
          gather = (\<lambda>k. ([], Some (ErrorString ''connection refused''))),
          after_ctxErr = (\<lambda>k. None), now_Set = (5, 5, 5)\<rparr>"
  let ?qe = "(NewQueryExecutor (NewMetricCache 100 (30 * Second)) :: nat QueryExecutor)"
  let ?out = "ExecuteQuery sha256hex () ?env ?qe ''prom'' \<lparr>Expr = ''up'', query_DatasourceID = ''prom''\<rparr> 5"
  have e: "snd (fst ?out)
       = Some (Errorf ''query failed after 3 attempts: '' (ErrorString ''connection refused''))"
    by (simp add: ExecuteQuery_def Let_def Get_def NewQueryExecutor_def NewMetricCache_def
        qe_executeWithRetry_exhausted)
  then have ne: "snd (fst ?out) \<noteq> None" by simp
  note t = ExecuteQuery_error_leaves_entries[OF ne]
  note t_cache = t[THEN conjunct1]
  note t_misses = t[THEN conjunct2, THEN conjunct2, THEN conjunct2, THEN conjunct1]
  note t_succ = t[THEN conjunct2, THEN conjunct2, THEN conjunct2, THEN conjunct2, THEN conjunct1]
  note t_err = t[THEN conjunct2, THEN conjunct2, THEN conjunct2, THEN conjunct2, THEN conjunct2,
      THEN mp, THEN conjunct1]
  have c: "entries (cache (snd ?out)) = []"
    unfolding t_cache by (simp add: Get_def Let_def NewQueryExecutor_def NewMetricCache_def)
  have m: "misses (cache (snd ?out)) = 1"
    unfolding t_misses by (simp add: NewQueryExecutor_def NewMetricCache_def wrap64_def)
  have "semaphore ?env = None" by simp
  then have r: "errors (qe_metrics (snd ?out)) = 1"
    using t_err by (simp add: NewQueryExecutor_def NewExecutionMetrics_def wrap64_def)
  have u: "successes (qe_metrics (snd ?out)) = 0"
    unfolding t_succ by (simp add: NewQueryExecutor_def NewExecutionMetrics_def)
  show "snd (fst ?out)
       = Some (Errorf ''query failed after 3 attempts: '' (ErrorString ''connection refused''))
   \<and> snd (fst ?out) \<noteq> None
   \<and> entries (cache (snd ?out)) = []
   \<and> misses (cache (snd ?out)) = 1
   \<and> errors (qe_metrics (snd ?out)) = 1
   \<and> successes (qe_metrics (snd ?out)) = 0"
    using e ne c m r u by (intro conjI)
qed

text \<open>
  As the claim is written (the cache contents are unchanged by a call that returns an
  error) it fails: the lookup at the start of the call deletes an expired entry of the
  key and counts a miss, also when the gather then fails.
\<close>

theorem ExecuteQuery_error_changes_cache:
  "\<forall>sha256hex.
     snd (fst (ExecuteQuery sha256hex ()
        \<lparr>now_Get = 20, semaphore = None, loop_ctxErr = (\<lambda>k. None), backoff_ctxDone = (\<lambda>k. None),
          gather = (\<lambda>k. ([], Some DeadlineExceeded)),
          after_ctxErr = (\<lambda>k. None), now_Set = (20, 20, 20)\<rparr>
        \<lparr>cache = \<lparr>entries = [(sha256hex ''prom:up'',
                      \<lparr>data = [1::nat], created = 0, expires = 10, entry_hits = 0\<rparr>)],
                   maxSize = 100, maxAge = 10, hits = 0, misses = 0\<rparr>,
          qe_metrics = NewExecutionMetrics\<rparr>
        ''prom'' \<lparr>Expr = ''up'', query_DatasourceID = ''prom''\<rparr> 20)) = Some DeadlineExceeded
   \<and> entries (cache (snd (ExecuteQuery sha256hex ()
        \<lparr>now_Get = 20, semaphore = None, loop_ctxErr = (\<lambda>k. None), backoff_ctxDone = (\<lambda>k. None),
          gather = (\<lambda>k. ([], Some DeadlineExceeded)),
          after_ctxErr = (\<lambda>k. None), now_Set = (20, 20, 20)\<rparr>
        \<lparr>cache = \<lparr>entries = [(sha256hex ''prom:up'',
                      \<lparr>data = [1::nat], created = 0, expires = 10, entry_hits = 0\<rparr>)],
                   maxSize = 100, maxAge = 10, hits = 0, misses = 0\<rparr>,
          qe_metrics = NewExecutionMetrics\<rparr>
        ''prom'' \<lparr>Expr = ''up'', query_DatasourceID = ''prom''\<rparr> 20))) = []
   \<and> misses (cache (snd (ExecuteQuery sha256hex ()
        \<lparr>now_Get = 20, semaphore = None, loop_ctxErr = (\<lambda>k. None), backoff_ctxDone = (\<lambda>k. None),
          gather = (\<lambda>k. ([], Some DeadlineExceeded)),
          after_ctxErr = (\<lambda>k. None), now_Set = (20, 20, 20)\<rparr>
        \<lparr>cache = \<lparr>entries = [(sha256hex ''prom:up'',
                      \<lparr>data = [1::nat], created = 0, expires = 10, entry_hits = 0\<rparr>)],
                   maxSize = 100, maxAge = 10, hits = 0, misses = 0\<rparr>,
          qe_metrics = NewExecutionMetrics\<rparr>
        ''prom'' \<lparr>Expr = ''up'', query_DatasourceID = ''prom''\<rparr> 20))) = 1"
  by (simp add: ExecuteQuery_def Let_def Get_def NewCacheKey_def cacheKey_def
      qe_executeWithRetry_def qe_retry_loop_unroll MaxRetransmission_def
      metric_isContextError_def wrap64_def)

section \<open>The dashboard wave: the properties\<close>

lemma widget_task_at_most_one: "length (widget_task w) \<le> 1"
  by (cases w rule: widget_task.cases) auto

lemma widget_task_reports:
  "w = None \<or> (\<exists>v. w = Some (Panics v)) \<or> (\<exists>e ce. w = Some (Returns (Some e) ce))
     \<Longrightarrow> length (widget_task w) = 1"
  by (cases w rule: widget_task.cases) auto

lemma chan_send_all_room:
  "length buf + length xs \<le> n \<Longrightarrow> chan_send_all n buf xs = Some (buf @ xs)"
  by (induction xs arbitrary: buf) (auto simp: chan_send_def)

lemma run_tasks_room:
  "length buf + length ws \<le> n \<Longrightarrow> run_tasks n buf ws = Some (buf @ concat (map widget_task ws))"
proof (induction ws arbitrary: buf)
  case Nil
  then show ?case by simp
next
  case (Cons w ws)
  have l: "length (widget_task w) \<le> 1" by (rule widget_task_at_most_one)
  then have a: "chan_send_all n buf (widget_task w) = Some (buf @ widget_task w)"
    using Cons.prems by (intro chan_send_all_room) simp
  have "length (buf @ widget_task w) + length ws \<le> n" using Cons.prems l by simp
  then show ?case using Cons.IH[of "buf @ widget_task w"] a by simp
qed

lemma mset_concat_map_perm:
  "mset xs = mset ys \<Longrightarrow> mset (concat (map f xs)) = mset (concat (map f ys))"
proof -
  assume a: "mset xs = mset ys"
  have "mset (concat (map f zs)) = sum_mset (image_mset (\<lambda>z. mset (f z)) (mset zs))" for zs
    by (induction zs) auto
  then show ?thesis using a by simp
qed

lemma widget_task_calls:
  "map (\<lambda>err. Logger_Errorf (Error err) []) (widget_task w) =
     (case w of
        None \<Rightarrow> [Logger_Errorf ''widget is nil, skipping sync'' []]
      | Some (Panics v) \<Rightarrow> [Logger_Errorf (''widget sync panic recovered: '' @ v) []]
      | Some (Returns None ce) \<Rightarrow> []
      | Some (Returns (Some e) ce) \<Rightarrow>
          [Logger_Errorf
             ((if ce = Some DeadlineExceeded then ''widget sync timeout: ''
               else if ce = Some Canceled then ''widget sync canceled: ''
               else ''error syncing widget: '') @ Error e) []])"
  by (cases w rule: widget_task.cases) auto

lemma in_concat_map: "w \<in> set ws \<Longrightarrow> x \<in> set (f w) \<Longrightarrow> x \<in> set (concat (map f ws))"
  by auto

text \<open>
  C8. Whatever the widgets do in a wave (return nil, return an error, panic, or be nil)
  and in whatever order their tasks finish, the dashboard-level \<open>Sync\<close> runs every
  task to its end without blocking on the error channel and returns nil, after handing
  to the logger one \<open>Errorf\<close> call for each widget that is nil, panicked or returned
  an error, and none for the others: for a nil widget the fixed text, for a panic the
  text of the recovered value behind "widget sync panic recovered: ", and for a returned
  error the text of that error behind the prefix that the state of the widget context
  selects.
\<close>

theorem dashboard_Sync_returns_nil:
  assumes "mset order = mset widgets"
  shows "\<exists>calls. dashboard_Sync widgets order = Some (calls, None)
     \<and> mset calls =
         mset (concat (map (\<lambda>w. case w of
            None \<Rightarrow> [Logger_Errorf ''widget is nil, skipping sync'' []]
          | Some (Panics v) \<Rightarrow> [Logger_Errorf (''widget sync panic recovered: '' @ v) []]
          | Some (Returns None ce) \<Rightarrow> []
          | Some (Returns (Some e) ce) \<Rightarrow>
              [Logger_Errorf
                 ((if ce = Some DeadlineExceeded then ''widget sync timeout: ''
                   else if ce = Some Canceled then ''widget sync canceled: ''
                   else ''error syncing widget: '') @ Error e) []]) widgets))
     \<and> (None \<in> set widgets \<longrightarrow> Logger_Errorf ''widget is nil, skipping sync'' [] \<in> set calls)
     \<and> (\<forall>v. Some (Panics v) \<in> set widgets \<longrightarrow>
           Logger_Errorf (''widget sync panic recovered: '' @ v) [] \<in> set calls)
     \<and> (\<forall>e ce. Some (Returns (Some e) ce) \<in> set widgets \<longrightarrow>
           Logger_Errorf
             ((if ce = Some DeadlineExceeded then ''widget sync timeout: ''
               else if ce = Some Canceled then ''widget sync canceled: ''
               else ''error syncing widget: '') @ Error e) [] \<in> set calls)
     \<and> length calls = length (filter (\<lambda>w. \<forall>ce. w \<noteq> Some (Returns None ce)) widgets)"
proof -
  let ?L = "\<lambda>err. Logger_Errorf (Error err) []"
  let ?expected = "\<lambda>w. case w of
            None \<Rightarrow> [Logger_Errorf ''widget is nil, skipping sync'' []]
          | Some (Panics v) \<Rightarrow> [Logger_Errorf (''widget sync panic recovered: '' @ v) []]
          | Some (Returns None ce) \<Rightarrow> []
          | Some (Returns (Some e) ce) \<Rightarrow>
              [Logger_Errorf
                 ((if ce = Some DeadlineExceeded then ''widget sync timeout: ''
                   else if ce = Some Canceled then ''widget sync canceled: ''
                   else ''error syncing widget: '') @ Error e) []]"
  let ?calls = "map ?L (concat (map widget_task order))"
  have "length order = length widgets" using assms by (rule mset_eq_length)
  then have "run_tasks (length widgets) [] order = Some ([] @ concat (map widget_task order))"
    by (intro run_tasks_room) simp
  then have ret: "dashboard_Sync widgets order = Some (?calls, None)"
    by (simp add: dashboard_Sync_def)
  have c: "?calls = concat (map ?expected order)"
    by (simp add: map_concat comp_def widget_task_calls)
  have ms: "mset ?calls = mset (concat (map ?expected widgets))"
    unfolding c using assms by (rule mset_concat_map_perm)
  then have st: "set ?calls = set (concat (map ?expected widgets))"
    by (rule mset_eq_setD)
  have nil: "None \<in> set widgets \<longrightarrow> Logger_Errorf ''widget is nil, skipping sync'' [] \<in> set ?calls"
  proof
    assume "None \<in> set widgets"
    then show "Logger_Errorf ''widget is nil, skipping sync'' [] \<in> set ?calls"
      unfolding st by (rule in_concat_map) simp
  qed
  have pan: "\<forall>v. Some (Panics v) \<in> set widgets \<longrightarrow>
           Logger_Errorf (''widget sync panic recovered: '' @ v) [] \<in> set ?calls"
  proof (intro allI impI)
    fix v
    assume "Some (Panics v) \<in> set widgets"
    then show "Logger_Errorf (''widget sync panic recovered: '' @ v) [] \<in> set ?calls"
      unfolding st by (rule in_concat_map) simp
  qed
  have err: "\<forall>e ce. Some (Returns (Some e) ce) \<in> set widgets \<longrightarrow>
           Logger_Errorf
             ((if ce = Some DeadlineExceeded then ''widget sync timeout: ''
               else if ce = Some Canceled then ''widget sync canceled: ''
               else ''error syncing widget: '') @ Error e) [] \<in> set ?calls"
  proof (intro allI impI)
    fix e ce
    assume "Some (Returns (Some e) ce) \<in> set widgets"
    then show "Logger_Errorf
             ((if ce = Some DeadlineExceeded then ''widget sync timeout: ''
               else if ce = Some Canceled then ''widget sync canceled: ''
               else ''error syncing widget: '') @ Error e) [] \<in> set ?calls"
      unfolding st by (rule in_concat_map) simp
  qed
  have "length (concat (map ?expected ws)) =
          length (filter (\<lambda>w. \<forall>ce. w \<noteq> Some (Returns None ce)) ws)" for ws
    by (induction ws) (auto split: option.splits sync_outcome.splits)
  moreover have "length ?calls = length (concat (map ?expected widgets))"
    using ms by (rule mset_eq_length)
  ultimately have len: "length ?calls = length (filter (\<lambda>w. \<forall>ce. w \<noteq> Some (Returns None ce)) widgets)"
    by simp
  show ?thesis
    using ret ms nil pan err len by (intro exI[of _ ?calls] conjI)
qed

theorem dashboard_Sync_returns_nil_witness:
  "mset [Some (Returns (Some (ErrorString ''no data'')) (Some DeadlineExceeded)),
         Some (Panics ''nil pointer dereference''), None, Some (Returns None None)]
     = mset [None, Some (Panics ''nil pointer dereference''), Some (Returns None None),
          Some (Returns (Some (ErrorString ''no data'')) (Some DeadlineExceeded))]
   \<and> dashboard_Sync
        [None, Some (Panics ''nil pointer dereference''), Some (Returns None None),
          Some (Returns (Some (ErrorString ''no data'')) (Some DeadlineExceeded))]
        [Some (Returns (Some (ErrorString ''no data'')) (Some DeadlineExceeded)),
         Some (Panics ''nil pointer dereference''), None, Some (Returns None None)]
     = Some ([Logger_Errorf ''widget sync timeout: no data'' [],
              Logger_Errorf ''widget sync panic recovered: nil pointer dereference'' [],
              Logger_Errorf ''widget is nil, skipping sync'' []], None)"
proof -
  let ?ws = "[None, Some (Panics ''nil pointer dereference''), Some (Returns None None),
          Some (Returns (Some (ErrorString ''no data'')) (Some DeadlineExceeded))]"
  let ?order = "[Some (Returns (Some (ErrorString ''no data'')) (Some DeadlineExceeded)),
         Some (Panics ''nil pointer dereference''), None, Some (Returns None None)]"
  let ?want = "[Logger_Errorf ''widget sync timeout: no data'' [],
              Logger_Errorf ''widget sync panic recovered: nil pointer dereference'' [],
              Logger_Errorf ''widget is nil, skipping sync'' []]"
  have p: "mset ?order = mset ?ws" by (simp add: add.commute add.left_commute)
  from dashboard_Sync_returns_nil[OF p]
  obtain calls where r: "dashboard_Sync ?ws ?order = Some (calls, None)"
    by blast
  have e: "dashboard_Sync ?ws ?order = Some (?want, None)"
    by (simp add: dashboard_Sync_def chan_send_def)
  show ?thesis using p r e by simp
qed

end
